theory Spec2Isabelle
  imports Complex_Main "HOL-Library.AList" "HOL-Library.Multiset" "HOL-Library.Log_Nat"
begin

section \<open>Data model\<close>

text \<open>
  The screens keep their data in AsyncStorage as JSON text. The model keeps the decoded
  values. A field that a JavaScript object may lack is an \<open>option\<close>; \<open>None\<close> is
  \<open>undefined\<close>.

  Times: \<open>new Date().toISOString()\<close> is represented by the number of milliseconds since
  the epoch that it denotes, and the date part \<open>toISOString().split('T')[0]\<close> by the number
  of UTC days since the epoch. Both representations are one-to-one on the strings the
  screens produce.

  Numbers: a JavaScript number is an IEEE double, and the results of \<open>Math.sin\<close>,
  \<open>Math.cos\<close>, \<open>Math.sqrt\<close> and \<open>Math.atan2\<close> are left to the implementation. The
  arithmetic of the distance computation is therefore a parameter of the model, the record
  \<open>arith\<close> below: what is proved holds for every arithmetic, that of the device among
  them. A coordinate that the device reports is a finite double, that is, a real number.
  In \<open>calculateHours\<close> the double division and \<open>toFixed\<close> are modelled exactly.
\<close>

type_synonym timestamp = int
type_synonym isodate = int

record coords =
  latitude :: real
  longitude :: real

text \<open>
  The numbers \<open>'n\<close> of the device and the operations on them that the screens use:
  \<open>num\<close> is the number of a literal or of a reported coordinate, \<open>toBoolean\<close> the
  truth value of a number (false for \<open>NaN\<close> and for zero), and \<open>parseFloat\<close> and \<open>isNaN\<close>
  are the built-in functions.
\<close>

record 'n arith =
  num :: "real \<Rightarrow> 'n"
  num_add :: "'n \<Rightarrow> 'n \<Rightarrow> 'n"
  num_sub :: "'n \<Rightarrow> 'n \<Rightarrow> 'n"
  num_mul :: "'n \<Rightarrow> 'n \<Rightarrow> 'n"
  num_div :: "'n \<Rightarrow> 'n \<Rightarrow> 'n"
  num_le :: "'n \<Rightarrow> 'n \<Rightarrow> bool"
  Math_sin :: "'n \<Rightarrow> 'n"
  Math_cos :: "'n \<Rightarrow> 'n"
  Math_sqrt :: "'n \<Rightarrow> 'n"
  Math_atan2 :: "'n \<Rightarrow> 'n \<Rightarrow> 'n"
  Math_PI :: 'n
  toBoolean :: "'n \<Rightarrow> bool"
  parseFloat :: "string \<Rightarrow> 'n"
  isNaN :: "'n \<Rightarrow> bool"

text \<open>\<open>user.assignedLocation\<close>, as \<open>handleSaveGeofence\<close> writes it: the texts of the form.\<close>

record assigned_location =
  name :: "string option"
  latitude :: "string option"
  longitude :: "string option"
  radius :: "string option"

record notification_settings =
  enabled :: bool
  attendanceReminders :: bool
  approvalAlerts :: bool
  systemUpdates :: bool

text \<open>
  A user object of the \<open>users\<close> collection. The operations are stated on
  \<open>'u user_scheme\<close>, so that an object may carry further fields.
\<close>

record user =
  id :: string
  email :: string
  password :: string
  name :: "string option"
  department :: "string option"
  role :: string
  assignedLocation :: "assigned_location option"
  roleChangeRequested :: bool
  notificationSettings :: "notification_settings option"

text \<open>The record stored under \<open>attendance_<email>_<date>\<close>, and the placeholder of the admin view.\<close>

record attendance =
  date :: "isodate option"
  email :: string
  name :: "string option"
  department :: "string option"
  checkInTime :: "timestamp option"
  checkInLocation :: "coords option"
  checkOutTime :: "timestamp option"
  checkOutLocation :: "coords option"
  totalHours :: "real option"
  status :: "string option"

record snapshot =
  latitude :: real
  longitude :: real
  timestamp :: timestamp
  isInside :: bool

text \<open>
  AsyncStorage. \<open>users\<close> and \<open>employeeLocations\<close> are \<open>None\<close> while their key is absent.
  The key \<open>attendance_<email>_<date>\<close> is the pair of the email and the date (the date text
  has a fixed width, so the pair determines the key and the key the pair); the list is in
  the order of \<open>getAllKeys\<close>.
\<close>

record 'u storage =
  users :: "'u user_scheme list option"
  employeeLocations :: "(string \<rightharpoonup> snapshot) option"
  attendanceItems :: "((string \<times> isodate) \<times> attendance) list"

text \<open>\<open>Alert.alert(title, message)\<close>; the two success notices of the home screen carry the values
  that the message prints.\<close>

datatype alert =
  Error string
| Success string
| CheckedInAt timestamp
| CheckedOutAt timestamp "real option"

text \<open>What every screen sees: the storage, the notices shown so far, and \<open>useAuth().user\<close>.\<close>

record 'u world =
  storage :: "'u storage"
  alerts :: "alert list"
  user :: "'u user_scheme option"

definition notify :: "alert \<Rightarrow> ('u, 'w) world_scheme \<Rightarrow> ('u, 'w) world_scheme" where
  "notify a s = s\<lparr>alerts := alerts s @ [a]\<rparr>"

section \<open>Home screen\<close>

subsection \<open>Geofence and distance\<close>

record 'n geofence =
  latitude :: 'n
  longitude :: 'n
  radius :: 'n
  name :: string

text \<open>\<open>parseFloat(x)\<close> of a field that may be \<open>undefined\<close>, which is converted to the text
  \<open>undefined\<close>.\<close>

definition parseField :: "'n arith \<Rightarrow> string option \<Rightarrow> 'n" where
  "parseField ar x =
     (case x of None \<Rightarrow> parseFloat ar ''undefined'' | Some t \<Rightarrow> parseFloat ar t)"

text \<open>
  The constant \<open>geofence\<close> of the component. \<open>parseFloat(radius) || 100\<close> is 100 when the
  parsed radius is false as a truth value; \<open>name || 'Office'\<close> is \<open>'Office'\<close> when the
  name is absent or empty.
\<close>

definition geofence :: "'n arith \<Rightarrow> 'u user_scheme option \<Rightarrow> 'n geofence option" where
  "geofence ar usr =
     (case usr of
        None \<Rightarrow> None
      | Some u \<Rightarrow>
          (case assignedLocation u of
             None \<Rightarrow> None
           | Some a \<Rightarrow>
               Some \<lparr>geofence.latitude = parseField ar (assigned_location.latitude a),
                     longitude = parseField ar (assigned_location.longitude a),
                     radius = (let r = parseField ar (assigned_location.radius a)
                               in if toBoolean ar r then r else num ar 100),
                     name = (case assigned_location.name a of
                               None \<Rightarrow> ''Office''
                             | Some n \<Rightarrow> if n = [] then ''Office'' else n)\<rparr>))"

definition deg2rad :: "'n arith \<Rightarrow> 'n \<Rightarrow> 'n" where
  "deg2rad ar deg = num_mul ar deg (num_div ar (Math_PI ar) (num ar 180))"

text \<open>\<open>calculateDistance\<close>, in km, operation by operation (\<open>*\<close> and \<open>+\<close> associate to the
  left).\<close>

definition calculateDistance :: "'n arith \<Rightarrow> 'n \<Rightarrow> 'n \<Rightarrow> 'n \<Rightarrow> 'n \<Rightarrow> 'n" where
  "calculateDistance ar lat1 lon1 lat2 lon2 =
     (let R = num ar 6371;
          dLat = deg2rad ar (num_sub ar lat2 lat1);
          dLon = deg2rad ar (num_sub ar lon2 lon1);
          a = num_add ar
                (num_mul ar (Math_sin ar (num_div ar dLat (num ar 2)))
                            (Math_sin ar (num_div ar dLat (num ar 2))))
                (num_mul ar
                   (num_mul ar
                      (num_mul ar (Math_cos ar (deg2rad ar lat1)) (Math_cos ar (deg2rad ar lat2)))
                      (Math_sin ar (num_div ar dLon (num ar 2))))
                   (Math_sin ar (num_div ar dLon (num ar 2))));
          c = num_mul ar (num ar 2)
                (Math_atan2 ar (Math_sqrt ar a) (Math_sqrt ar (num_sub ar (num ar 1) a)))
      in num_mul ar R c)"

text \<open>The test \<open>distance <= geofence.radius / 1000\<close> of \<open>updateLocationStatus\<close> and of
  \<open>handleAttendance\<close>, on the position that the device reports.\<close>

definition isInsideOf :: "'n arith \<Rightarrow> coords \<Rightarrow> 'n geofence \<Rightarrow> bool" where
  "isInsideOf ar c g =
     (let distance = calculateDistance ar (num ar (coords.latitude c)) (num ar (coords.longitude c))
                       (geofence.latitude g) (geofence.longitude g)
      in num_le ar distance (num_div ar (geofence.radius g) (num ar 1000)))"

subsection \<open>Screen state\<close>

datatype location_status = Inside | Outside | Unknown

text \<open>
  The state of the component. \<open>positionQueries\<close> is not a variable of the source: it
  counts the calls of \<open>Location.getCurrentPositionAsync\<close> that \<open>handleAttendance\<close> makes.
\<close>

record 'u home_screen = "'u world" +
  locationStatus :: location_status
  attendanceStatus :: "bool option"
  fetchingLocation :: bool
  positionQueries :: nat

text \<open>
  What one run of \<open>handleAttendance\<close> reads from the device: the answer of
  \<open>Location.getCurrentPositionAsync\<close> (\<open>None\<close> when it rejects) and the three readings of
  \<open>new Date()\<close>, in \<open>updateLocationStatus\<close>, for \<open>today\<close> and for \<open>currentTime\<close>.
\<close>

record readings =
  position :: "coords option"
  snapshotClock :: timestamp
  todayClock :: timestamp
  currentClock :: timestamp

definition isoDate :: "timestamp \<Rightarrow> isodate" where
  "isoDate t = t div 86400000"

text \<open>
  \<open>updateLocationStatus\<close>. The write of \<open>employeeLocations\<close> is put right after the
  classification; in the source it runs after the first \<open>await\<close>, on a key that no other
  function of the home screen writes.
\<close>

definition updateLocationStatus ::
  "'n arith \<Rightarrow> timestamp \<Rightarrow> coords \<Rightarrow> 'u home_screen \<Rightarrow> 'u home_screen" where
  "updateLocationStatus ar clock locationObj s =
     (case geofence ar (user s) of
        None \<Rightarrow> s\<lparr>locationStatus := Unknown\<rparr>
      | Some g \<Rightarrow>
          let isInside = isInsideOf ar locationObj g;
              s1 = s\<lparr>locationStatus := (if isInside then Inside else Outside)\<rparr>
          in (case user s of
                None \<Rightarrow> s1
              | Some u \<Rightarrow>
                  if role u = ''employee''
                  then let locationsMap =
                             (case employeeLocations (storage s1) of
                                None \<Rightarrow> Map.empty
                              | Some m \<Rightarrow> m)
                       in s1\<lparr>storage := (storage s1)\<lparr>employeeLocations :=
                               Some (locationsMap(user.email u \<mapsto>
                                 \<lparr>snapshot.latitude = coords.latitude locationObj,
                                  longitude = coords.longitude locationObj,
                                  timestamp = clock,
                                  isInside = isInside\<rparr>))\<rparr>\<rparr>
                  else s1))"

subsection \<open>Hours\<close>

text \<open>
  \<open>diffMs / (1000 * 60 * 60)\<close> is a division of doubles. \<open>divideDouble p q\<close> is the double
  nearest to \<open>p / q\<close> (ties to the even significand), for integers \<open>p\<close> and \<open>q\<close> below
  \<open>2^53\<close> in absolute value and a quotient in the normal range.
\<close>

definition pow2 :: "int \<Rightarrow> real" where
  "pow2 e = (if 0 \<le> e then 2 ^ nat e else 1 / 2 ^ nat (- e))"

definition roundTiesToEven :: "real \<Rightarrow> int" where
  "roundTiesToEven y =
     (let n = \<lfloor>y\<rfloor>; r = y - of_int n
      in if r < 1 / 2 then n else if 1 / 2 < r then n + 1 else if even n then n else n + 1)"

text \<open>The exponent \<open>e\<close> with \<open>2^e \<le> p / q < 2^(e+1)\<close>, for positive \<open>p\<close> and \<open>q\<close>.\<close>

definition binaryExponent :: "int \<Rightarrow> int \<Rightarrow> int" where
  "binaryExponent p q =
     (let e = bitlen p - bitlen q
      in if pow2 e * of_int q \<le> of_int p then e else e - 1)"

definition divideDouble :: "int \<Rightarrow> int \<Rightarrow> real" where
  "divideDouble p q =
     (if p = 0 then 0
      else let ulp = pow2 (binaryExponent \<bar>p\<bar> \<bar>q\<bar> - 52)
           in of_int (sgn p * sgn q) *
              (of_int (roundTiesToEven (of_int \<bar>p\<bar> / of_int \<bar>q\<bar> / ulp)) * ulp))"

text \<open>
  \<open>parseFloat(x.toFixed(2))\<close>: \<open>toFixed\<close> takes the integer \<open>n\<close> with \<open>n / 100\<close> nearest to
  \<open>\<bar>x\<bar>\<close>, the larger one of two, and prints it with the sign of \<open>x\<close>; the value read back
  is represented by the decimal \<open>n / 100\<close> itself.
\<close>

definition toFixed2 :: "real \<Rightarrow> real" where
  "toFixed2 x =
     (if x < 0 then - (of_int \<lfloor>- x * 100 + 1 / 2\<rfloor> / 100)
      else of_int \<lfloor>x * 100 + 1 / 2\<rfloor> / 100)"

text \<open>\<open>calculateHours\<close>. A record without \<open>checkInTime\<close> gives \<open>NaN\<close>, which is stored as
  \<open>null\<close>.\<close>

definition calculateHours :: "timestamp option \<Rightarrow> timestamp \<Rightarrow> real option" where
  "calculateHours startTime endTime =
     (case startTime of
        None \<Rightarrow> None
      | Some start \<Rightarrow>
          let diffMs = endTime - start;
              diffHrs = divideDouble diffMs (1000 * 60 * 60)
          in Some (toFixed2 diffHrs))"

subsection \<open>Attendance\<close>

definition getItem :: "'u storage \<Rightarrow> string \<times> isodate \<Rightarrow> attendance option" where
  "getItem st k = map_of (attendanceItems st) k"

definition setItem :: "string \<times> isodate \<Rightarrow> attendance \<Rightarrow> 'u storage \<Rightarrow> 'u storage" where
  "setItem k v st = st\<lparr>attendanceItems := AList.update k v (attendanceItems st)\<rparr>"

text \<open>\<open>getAttendanceStatus\<close>, with the reading of \<open>new Date()\<close> as argument.\<close>

definition getAttendanceStatus :: "timestamp \<Rightarrow> 'u home_screen \<Rightarrow> 'u home_screen" where
  "getAttendanceStatus clock s =
     (case user s of
        None \<Rightarrow> s
      | Some u \<Rightarrow>
          (case getItem (storage s) (user.email u, isoDate clock) of
             Some data \<Rightarrow> s\<lparr>attendanceStatus := Some (checkOutTime data = None)\<rparr>
           | None \<Rightarrow> s\<lparr>attendanceStatus := Some False\<rparr>))"

text \<open>The two branches of \<open>handleAttendance\<close> that write the record of the day.\<close>

definition checkInData ::
  "'u user_scheme \<Rightarrow> isodate \<Rightarrow> timestamp \<Rightarrow> coords \<Rightarrow> attendance" where
  "checkInData u today currentTime currentLocation =
     \<lparr>date = Some today,
      email = user.email u,
      name = user.name u,
      department = user.department u,
      checkInTime = Some currentTime,
      checkInLocation = Some currentLocation,
      checkOutTime = None,
      checkOutLocation = None,
      totalHours = None,
      status = None\<rparr>"

definition checkIn ::
  "'u user_scheme \<Rightarrow> isodate \<Rightarrow> timestamp \<Rightarrow> coords \<Rightarrow> 'u home_screen \<Rightarrow> 'u home_screen" where
  "checkIn u today currentTime currentLocation s =
     notify (CheckedInAt currentTime)
       (s\<lparr>attendanceStatus := Some True,
          storage := setItem (user.email u, today)
                       (checkInData u today currentTime currentLocation) (storage s)\<rparr>)"

definition checkOut ::
  "'u user_scheme \<Rightarrow> isodate \<Rightarrow> timestamp \<Rightarrow> coords \<Rightarrow> attendance \<Rightarrow>
     'u home_screen \<Rightarrow> 'u home_screen" where
  "checkOut u today currentTime currentLocation storedData s =
     (let totalHours = calculateHours (checkInTime storedData) currentTime;
          updatedData =
            storedData\<lparr>checkOutTime := Some currentTime,
                       checkOutLocation := Some currentLocation,
                       totalHours := totalHours\<rparr>
      in notify (CheckedOutAt currentTime totalHours)
           (s\<lparr>attendanceStatus := Some False,
              storage := setItem (user.email u, today) updatedData (storage s)\<rparr>))"

text \<open>
  \<open>handleAttendance\<close>. A rejected position query is caught and reported; the storage calls
  are taken to succeed. \<open>attendanceStatus\<close> in the test of the branch is the value of the
  render in which the handler was created, the state \<open>s\<close> at the start.
\<close>

definition handleAttendance ::
  "'n arith \<Rightarrow> readings \<Rightarrow> 'u home_screen \<Rightarrow> 'u home_screen" where
  "handleAttendance ar dev s =
     (case user s of
        None \<Rightarrow> s
      | Some u \<Rightarrow>
          (case geofence ar (user s) of
             None \<Rightarrow>
               notify (Error ''You have no assigned location. Please contact your administrator.'') s
           | Some g \<Rightarrow>
               if locationStatus s \<noteq> Inside
               then notify (Error ''You must be inside your assigned location to check in or out.'') s
               else
                 (case position dev of
                    None \<Rightarrow>
                      notify (Error ''Failed to process your attendance.'')
                        (s\<lparr>positionQueries := positionQueries s + 1, fetchingLocation := False\<rparr>)
                  | Some currentLocation \<Rightarrow>
                      let s1 = updateLocationStatus ar (snapshotClock dev) currentLocation
                                 (s\<lparr>positionQueries := positionQueries s + 1\<rparr>);
                          isInside = isInsideOf ar currentLocation g
                      in if \<not> isInside
                         then notify
                                (Error ''You must be inside your assigned location to check in or out.'')
                                (s1\<lparr>fetchingLocation := False\<rparr>)
                         else
                           let today = isoDate (todayClock dev);
                               currentTime = currentClock dev
                           in (case getItem (storage s1) (user.email u, today) of
                                 None \<Rightarrow>
                                   (checkIn u today currentTime currentLocation s1)
                                     \<lparr>fetchingLocation := False\<rparr>
                               | Some storedData \<Rightarrow>
                                   if attendanceStatus s = Some False
                                   then (checkIn u today currentTime currentLocation s1)
                                          \<lparr>fetchingLocation := False\<rparr>
                                   else (checkOut u today currentTime currentLocation storedData s1)
                                          \<lparr>fetchingLocation := False\<rparr>))))"




text \<open>The states of the specification, read off the record of the day (a record with
  \<open>checkOutTime\<close> is checked out).\<close>

datatype day_state = NoRecord | CheckedIn | CheckedOut

definition dayState :: "attendance option \<Rightarrow> day_state" where
  "dayState r =
     (case r of
        None \<Rightarrow> NoRecord
      | Some d \<Rightarrow> if checkOutTime d = None then CheckedIn else CheckedOut)"

section \<open>Profile screen\<close>

record geofence_form =
  name :: string
  latitude :: string
  longitude :: string
  radius :: string

record role_request =
  id :: string
  email :: string
  name :: string

record 'u profile_screen = "'u world" +
  selectedEmployee :: "'u user_scheme option"
  geofenceLocation :: geofence_form
  showGeofenceModal :: bool
  isSaving :: bool
  roleRequests :: "role_request list"

text \<open>\<open>handleSaveGeofence\<close>.\<close>

definition handleSaveGeofence :: "'n arith \<Rightarrow> 'u profile_screen \<Rightarrow> 'u profile_screen" where
  "handleSaveGeofence ar s =
     (case selectedEmployee s of
        None \<Rightarrow> notify (Error ''Please select an employee'') s
      | Some sel \<Rightarrow>
          let f = geofenceLocation s;
              latitude = parseFloat ar (geofence_form.latitude f);
              longitude = parseFloat ar (geofence_form.longitude f);
              radius = parseFloat ar (geofence_form.radius f)
          in if isNaN ar latitude \<or> isNaN ar longitude \<or> isNaN ar radius
             then notify (Error ''Please enter valid coordinates and radius'') (s\<lparr>isSaving := False\<rparr>)
             else
               (case users (storage s) of
                  None \<Rightarrow> notify (Error ''Failed to update user data'') (s\<lparr>isSaving := False\<rparr>)
                | Some us \<Rightarrow>
                    let updatedUsers =
                          map (\<lambda>u. if user.email u = user.email sel
                                    then u\<lparr>assignedLocation :=
                                           Some \<lparr>assigned_location.name = Some (geofence_form.name f),
                                                 latitude = Some (geofence_form.latitude f),
                                                 longitude = Some (geofence_form.longitude f),
                                                 radius = Some (geofence_form.radius f)\<rparr>\<rparr>
                                    else u) us
                    in notify
                         (Success (''Geofence assigned to '' @
                            (case user.name sel of Some n \<Rightarrow> n | None \<Rightarrow> ''undefined'')))
                         (s\<lparr>storage := (storage s)\<lparr>users := Some updatedUsers\<rparr>,
                            showGeofenceModal := False,
                            selectedEmployee := None,
                            isSaving := False\<rparr>)))"

text \<open>\<open>handleRejectRequest\<close>: one state update, no storage call.\<close>

definition handleRejectRequest :: "string \<Rightarrow> 'u profile_screen \<Rightarrow> 'u profile_screen" where
  "handleRejectRequest userId s =
     s\<lparr>roleRequests := filter (\<lambda>req. role_request.id req \<noteq> userId) (roleRequests s)\<rparr>"

section \<open>Attendance screen\<close>

datatype period = All | Week | Month

record 'u attendance_screen = "'u world" +
  attendanceHistory :: "attendance list"
  filter_period :: period
  selectedDept :: string
  loading :: bool
  refreshing :: bool

text \<open>A text is truthy when it is present and not empty; \<open>a || b\<close> on texts.\<close>

definition truthy :: "string option \<Rightarrow> bool" where
  "truthy x = (case x of None \<Rightarrow> False | Some t \<Rightarrow> t \<noteq> [])"

definition orElse :: "string option \<Rightarrow> string option \<Rightarrow> string option" where
  "orElse a b = (if truthy a then a else b)"

text \<open>The completion of a record for the admin, in the loop of \<open>fetchHistory\<close>.\<close>

definition complete :: "'u user_scheme list \<Rightarrow> attendance \<Rightarrow> attendance" where
  "complete employees record =
     (if \<not> truthy (attendance.name record) \<or> \<not> truthy (attendance.department record)
      then (case find (\<lambda>e. user.email e = attendance.email record) employees of
              None \<Rightarrow> record
            | Some employeeData \<Rightarrow>
                record\<lparr>attendance.name :=
                         orElse (attendance.name record) (user.name employeeData),
                       attendance.department :=
                         orElse (attendance.department record) (user.department employeeData)\<rparr>)
      else record)"

text \<open>
  The placeholder of the \<open>i\<close>-th employee. Each placeholder reads \<open>new Date()\<close> twice;
  \<open>clock k\<close> is the \<open>k\<close>-th reading of one run of \<open>fetchHistory\<close>.
\<close>

definition placeholder :: "(nat \<Rightarrow> timestamp) \<Rightarrow> nat \<times> 'u user_scheme \<Rightarrow> attendance" where
  "placeholder clock ie =
     (case ie of
        (i, emp) \<Rightarrow>
          \<lparr>date = Some (isoDate (clock (2 * i))),
           email = user.email emp,
           name = user.name emp,
           department = user.department emp,
           checkInTime = Some (clock (2 * i + 1)),
           checkInLocation = None,
           checkOutTime = None,
           checkOutLocation = None,
           totalHours = None,
           status = Some ''No attendance recorded''\<rparr>)"

text \<open>\<open>new Date(a.checkInTime || a.date || 0).getTime()\<close>: a date without time is midnight UTC.\<close>

definition sortTime :: "attendance \<Rightarrow> int" where
  "sortTime a =
     (case checkInTime a of
        Some t \<Rightarrow> t
      | None \<Rightarrow> (case date a of Some d \<Rightarrow> d * 86400000 | None \<Rightarrow> 0))"

text \<open>The employees among the stored users (no users when the key is absent).\<close>

definition employeesOf :: "'u storage \<Rightarrow> 'u user_scheme list" where
  "employeesOf st =
     filter (\<lambda>e. role e = ''employee'') (case users st of None \<Rightarrow> [] | Some l \<Rightarrow> l)"

text \<open>
  \<open>fetchHistory\<close>. \<open>Array.prototype.sort\<close> is stable, and the comparison
  \<open>dateB.getTime() - dateA.getTime()\<close> orders by decreasing time, so the sort is
  \<open>sort_key\<close> on the negated time. The department list, which no claim is about, is
  left out.
\<close>

definition fetchHistory ::
  "(nat \<Rightarrow> timestamp) \<Rightarrow> 'u attendance_screen \<Rightarrow> 'u attendance_screen" where
  "fetchHistory clock s =
     (case user s of
        None \<Rightarrow> s
      | Some u \<Rightarrow>
          let employees = employeesOf (storage s);
              attendanceData = map snd (attendanceItems (storage s));
              history1 = map (\<lambda>record. if role u = ''admin''
                                        then complete employees record else record)
                           attendanceData;
              history2 = (if role u = ''admin'' \<and> length history1 = 0 \<and> 0 < length employees
                          then map (placeholder clock) (enumerate 0 employees)
                          else history1);
              history3 = sort_key (\<lambda>a. - sortTime a) history2;
              history4 = (if role u \<noteq> ''admin''
                          then filter (\<lambda>rec. attendance.email rec = user.email u) history3
                          else history3)
          in s\<lparr>attendanceHistory := history4, loading := False, refreshing := False\<rparr>)"

subsection \<open>Dates in the time zone of the device\<close>

text \<open>
  \<open>filteredHistory\<close> computes on \<open>Date\<close> objects in local time. The functions below are
  those of the ECMAScript specification (section "Date Objects"), on time values in
  milliseconds. The time zone of the device is the parameter \<open>tz\<close>: \<open>tz t True\<close> is the
  offset \<open>LocalTZA(t, true)\<close> of local time at the UTC time \<open>t\<close>, and \<open>tz t False\<close> the
  offset \<open>LocalTZA(t, false)\<close> at the local time \<open>t\<close>.
\<close>

type_synonym zone = "int \<Rightarrow> bool \<Rightarrow> int"

definition msPerDay :: int where
  "msPerDay = 86400000"

definition LocalTime :: "zone \<Rightarrow> int \<Rightarrow> int" where
  "LocalTime tz t = t + tz t True"

definition UTC :: "zone \<Rightarrow> int \<Rightarrow> int" where
  "UTC tz t = t - tz t False"

definition Day :: "int \<Rightarrow> int" where
  "Day t = t div msPerDay"

definition TimeWithinDay :: "int \<Rightarrow> int" where
  "TimeWithinDay t = t mod msPerDay"

definition DayFromYear :: "int \<Rightarrow> int" where
  "DayFromYear y =
     365 * (y - 1970) + (y - 1969) div 4 - (y - 1901) div 100 + (y - 1601) div 400"

definition InLeapYear :: "int \<Rightarrow> int" where
  "InLeapYear y =
     (if y mod 4 \<noteq> 0 then 0 else if y mod 100 \<noteq> 0 then 1 else if y mod 400 \<noteq> 0 then 0 else 1)"

text \<open>
  The year of a day is the largest \<open>y\<close> with \<open>DayFromYear y \<le> d\<close>. The mean year has
  146097 / 400 days, which gives the year up to one; the two tests settle it.
\<close>

definition YearFromDay :: "int \<Rightarrow> int" where
  "YearFromDay d =
     (let y = 1970 + (d * 400) div 146097
      in if DayFromYear (y + 1) \<le> d then y + 1
         else if d < DayFromYear y then y - 1
         else y)"

definition YearFromTime :: "int \<Rightarrow> int" where
  "YearFromTime t = YearFromDay (Day t)"

definition DayWithinYear :: "int \<Rightarrow> int" where
  "DayWithinYear t = Day t - DayFromYear (YearFromTime t)"

text \<open>The number of days of a year before its month \<open>m\<close> (0 is January), \<open>leap\<close> being
  \<open>InLeapYear\<close>.\<close>

definition daysBeforeMonth :: "int \<Rightarrow> int \<Rightarrow> int" where
  "daysBeforeMonth leap m =
     (if m = 0 then 0
      else if m = 1 then 31
      else if m = 2 then 59 + leap
      else if m = 3 then 90 + leap
      else if m = 4 then 120 + leap
      else if m = 5 then 151 + leap
      else if m = 6 then 181 + leap
      else if m = 7 then 212 + leap
      else if m = 8 then 243 + leap
      else if m = 9 then 273 + leap
      else if m = 10 then 304 + leap
      else 334 + leap)"

definition MonthFromTime :: "int \<Rightarrow> int" where
  "MonthFromTime t =
     (let d = DayWithinYear t; leap = InLeapYear (YearFromTime t)
      in if d < 31 then 0
         else if d < 59 + leap then 1
         else if d < 90 + leap then 2
         else if d < 120 + leap then 3
         else if d < 151 + leap then 4
         else if d < 181 + leap then 5
         else if d < 212 + leap then 6
         else if d < 243 + leap then 7
         else if d < 273 + leap then 8
         else if d < 304 + leap then 9
         else if d < 334 + leap then 10
         else 11)"

definition DateFromTime :: "int \<Rightarrow> int" where
  "DateFromTime t =
     DayWithinYear t - daysBeforeMonth (InLeapYear (YearFromTime t)) (MonthFromTime t) + 1"

text \<open>\<open>MakeDay\<close>: the day of the first of the month, counted from the year and any integer
  month, plus the date less one.\<close>

definition MakeDay :: "int \<Rightarrow> int \<Rightarrow> int \<Rightarrow> int" where
  "MakeDay year month dt =
     (let ym = year + month div 12;
          mn = month mod 12
      in DayFromYear ym + daysBeforeMonth (InLeapYear ym) mn + dt - 1)"

definition MakeDate :: "int \<Rightarrow> int \<Rightarrow> int" where
  "MakeDate day time = day * msPerDay + time"

text \<open>\<open>d.getDate()\<close>, \<open>d.getMonth()\<close>, \<open>d.setDate(dt)\<close> and \<open>d.setMonth(month)\<close> on a
  \<open>Date\<close> with the time value \<open>t\<close>; the setters return the new time value.\<close>

definition getDate :: "zone \<Rightarrow> int \<Rightarrow> int" where
  "getDate tz t = DateFromTime (LocalTime tz t)"

definition getMonth :: "zone \<Rightarrow> int \<Rightarrow> int" where
  "getMonth tz t = MonthFromTime (LocalTime tz t)"

definition setDate :: "zone \<Rightarrow> int \<Rightarrow> int \<Rightarrow> int" where
  "setDate tz t dt =
     (let lt = LocalTime tz t
      in UTC tz (MakeDate (MakeDay (YearFromTime lt) (MonthFromTime lt) dt) (TimeWithinDay lt)))"

definition setMonth :: "zone \<Rightarrow> int \<Rightarrow> int \<Rightarrow> int" where
  "setMonth tz t month =
     (let lt = LocalTime tz t
      in UTC tz (MakeDate (MakeDay (YearFromTime lt) month (DateFromTime lt)) (TimeWithinDay lt)))"


subsection \<open>The filter\<close>

text \<open>\<open>filteredHistory\<close>, with the time zone of the device and the reading \<open>now\<close> of
  \<open>new Date()\<close>.\<close>

definition filteredHistory ::
  "zone \<Rightarrow> timestamp \<Rightarrow> 'u attendance_screen \<Rightarrow> attendance list" where
  "filteredHistory tz now s =
     (let history0 = attendanceHistory s;
          history =
            (if (case user s of None \<Rightarrow> False | Some u \<Rightarrow> role u = ''admin'') \<and>
                selectedDept s \<noteq> ''All''
             then filter (\<lambda>rec. attendance.department rec = Some (selectedDept s)) history0
             else history0)
      in if filter_period s \<noteq> All
         then filter
                (\<lambda>item.
                   let dateObj = sortTime item
                   in if filter_period s = Week
                      then let weekAgo = setDate tz now (getDate tz now - 7)
                           in weekAgo \<le> dateObj \<and> dateObj \<le> now
                      else if filter_period s = Month
                      then let monthAgo = setMonth tz now (getMonth tz now - 1)
                           in monthAgo \<le> dateObj \<and> dateObj \<le> now
                      else True)
                history
         else history)"

section \<open>Example data\<close>

text \<open>
  The arithmetic of the examples: the real numbers, which the doubles approximate, with
  \<open>None\<close> for \<open>NaN\<close>. \<open>parseFloat\<close> is given at the texts that the examples parse; no
  other text occurs in them.
\<close>

definition parseFloat_sample :: "string \<Rightarrow> real option" where
  "parseFloat_sample t =
     (if t = ''37.7749'' then Some 37.7749
      else if t = ''-122.4194'' then Some (- 122.4194)
      else if t = ''100'' then Some 100
      else if t = ''40.7128'' then Some 40.7128
      else if t = ''-74.006'' then Some (- 74.006)
      else if t = ''250'' then Some 250
      else None)"

definition atan2_real :: "real \<Rightarrow> real \<Rightarrow> real" where
  "atan2_real y x =
     (if 0 < x then arctan (y / x)
      else if x < 0 then (if 0 \<le> y then arctan (y / x) + pi else arctan (y / x) - pi)
      else if 0 < y then pi / 2
      else if y < 0 then - (pi / 2)
      else 0)"

definition lift2 :: "(real \<Rightarrow> real \<Rightarrow> real) \<Rightarrow> real option \<Rightarrow> real option \<Rightarrow> real option" where
  "lift2 f a b = (case (a, b) of (Some x, Some y) \<Rightarrow> Some (f x y) | _ \<Rightarrow> None)"

definition exact :: "real option arith" where
  "exact =
     \<lparr>num = Some,
      num_add = lift2 plus,
      num_sub = lift2 minus,
      num_mul = lift2 times,
      num_div = (\<lambda>a b. if b = Some 0 then None else lift2 divide a b),
      num_le = (\<lambda>a b. case (a, b) of (Some x, Some y) \<Rightarrow> x \<le> y | _ \<Rightarrow> False),
      Math_sin = map_option sin,
      Math_cos = map_option cos,
      Math_sqrt = (\<lambda>a. case a of None \<Rightarrow> None | Some x \<Rightarrow> if x < 0 then None else Some (sqrt x)),
      Math_atan2 = lift2 atan2_real,
      Math_PI = Some pi,
      toBoolean = (\<lambda>a. case a of None \<Rightarrow> False | Some x \<Rightarrow> x \<noteq> 0),
      parseFloat = parseFloat_sample,
      isNaN = (\<lambda>a. a = None)\<rparr>"

definition alice :: user where
  "alice = \<lparr>user.id = ''u1'', email = ''alice@onsite.com'', password = ''pw1'',
            name = Some ''Alice'', department = Some ''Engineering'', role = ''employee'',
            assignedLocation = None, roleChangeRequested = True, notificationSettings = None\<rparr>"

definition bob :: user where
  "bob = \<lparr>user.id = ''u2'', email = ''bob@onsite.com'', password = ''pw2'',
          name = Some ''Bob'', department = Some ''Sales'', role = ''employee'',
          assignedLocation = None, roleChangeRequested = False, notificationSettings = None\<rparr>"

definition admin :: user where
  "admin = \<lparr>user.id = ''admin'', email = ''admin@onsite.com'', password = ''admin123'',
          name = Some ''Admin'', department = Some ''Admin'', role = ''admin'',
          assignedLocation = None, roleChangeRequested = False, notificationSettings = None\<rparr>"

text \<open>The form of the profile screen, filled in by the admin.\<close>

definition warehouse_form :: geofence_form where
  "warehouse_form = \<lparr>geofence_form.name = ''Warehouse'', latitude = ''40.7128'',
                      longitude = ''-74.006'', radius = ''250''\<rparr>"

definition profile0 :: "unit profile_screen" where
  "profile0 =
     \<lparr>storage = \<lparr>users = Some [admin, alice, bob], employeeLocations = None, attendanceItems = []\<rparr>,
      alerts = [],
      user = Some admin,
      selectedEmployee = Some alice,
      geofenceLocation = warehouse_form,
      showGeofenceModal = True,
      isSaving = False,
      roleRequests = [\<lparr>role_request.id = ''u1'', email = ''alice@onsite.com'', name = ''Alice''\<rparr>]\<rparr>"

text \<open>Alice with the geofence of the scenario: centre (37.7749, -122.4194), radius 100 m.\<close>

definition alice_assigned :: user where
  "alice_assigned =
     alice\<lparr>assignedLocation :=
             Some \<lparr>assigned_location.name = Some ''Office'', latitude = Some ''37.7749'',
                   longitude = Some ''-122.4194'', radius = Some ''100''\<rparr>\<rparr>"

definition office :: "real option geofence" where
  "office = \<lparr>geofence.latitude = Some 37.7749, longitude = Some (- 122.4194),
              radius = Some 100, name = ''Office''\<rparr>"

definition at_office :: coords where
  "at_office = \<lparr>coords.latitude = 37.7749, longitude = - 122.4194\<rparr>"


definition home0 :: "unit home_screen" where
  "home0 =
     \<lparr>storage = \<lparr>users = Some [admin, alice_assigned, bob], employeeLocations = None,
                  attendanceItems = []\<rparr>,
      alerts = [],
      user = Some alice_assigned,
      locationStatus = Inside,
      attendanceStatus = Some False,
      fetchingLocation = False,
      positionQueries = 0\<rparr>"

definition home_stale :: "unit home_screen" where
  "home_stale = home0\<lparr>locationStatus := Outside\<rparr>"

definition home_unassigned :: "unit home_screen" where
  "home_unassigned = home0\<lparr>user := Some alice\<rparr>"

text \<open>Check-in at 09:00 UTC and check-out at 17:30 UTC of the UTC day 20000, which is the
  4th of October 2024, and a third press at 18:00 UTC.\<close>

definition dev_in :: readings where
  "dev_in = \<lparr>position = Some at_office, snapshotClock = 1728032400000,
              todayClock = 1728032400000, currentClock = 1728032400000\<rparr>"

definition dev_out :: readings where
  "dev_out = \<lparr>position = Some at_office, snapshotClock = 1728063000000,
               todayClock = 1728063000000, currentClock = 1728063000000\<rparr>"


definition dev_again :: readings where
  "dev_again = \<lparr>position = Some at_office, snapshotClock = 1728064800000,
                 todayClock = 1728064800000, currentClock = 1728064800000\<rparr>"

definition home_after_out :: "unit home_screen" where
  "home_after_out = handleAttendance exact dev_out (handleAttendance exact dev_in home0)"

text \<open>
  The time zone of San Francisco around the end of daylight time in 2024: seven hours
  behind UTC until the 3rd of November 2024, 09:00 UTC (02:00 local time), eight hours
  behind from then on.
\<close>

definition pacific :: zone where
  "pacific t isUTC =
     (if isUTC
      then (if t < 1730624400000 then - 25200000 else - 28800000)
      else (if t < 1730599200000 then - 25200000 else - 28800000))"



text \<open>
  A ledger of four records: Alice on day 20000 (checked out), Bob on day 19999, and two
  records of Alice without \<open>checkInTime\<close>, of the days 19998 and 19990. The query is made
  on day 20000 at 18:00 UTC.
\<close>

definition rec_alice :: attendance where
  "rec_alice =
     (checkInData alice_assigned 20000 1728032400000 at_office)
       \<lparr>checkOutTime := Some 1728063000000, checkOutLocation := Some at_office,
        totalHours := Some 8.5\<rparr>"

definition rec_bob :: attendance where
  "rec_bob = checkInData bob 19999 1727946000000 at_office"

definition rec_alice_dated :: attendance where
  "rec_alice_dated = (checkInData alice_assigned 19998 0 at_office)\<lparr>checkInTime := None\<rparr>"

definition rec_alice_old :: attendance where
  "rec_alice_old = (checkInData alice_assigned 19990 0 at_office)\<lparr>checkInTime := None\<rparr>"

definition ledger :: "((string \<times> isodate) \<times> attendance) list" where
  "ledger =
     [((''alice@onsite.com'', 19990), rec_alice_old),
      ((''alice@onsite.com'', 19998), rec_alice_dated),
      ((''bob@onsite.com'', 19999), rec_bob),
      ((''alice@onsite.com'', 20000), rec_alice)]"

definition att_admin :: "unit attendance_screen" where
  "att_admin =
     \<lparr>storage = \<lparr>users = Some [admin, alice_assigned, bob], employeeLocations = None,
                  attendanceItems = ledger\<rparr>,
      alerts = [],
      user = Some admin,
      attendanceHistory = [],
      filter_period = Week,
      selectedDept = ''Engineering'',
      loading = True,
      refreshing = False\<rparr>"

definition att_employee :: "unit attendance_screen" where
  "att_employee = att_admin\<lparr>user := Some alice_assigned, filter_period := All, selectedDept := ''All''\<rparr>"

definition att_empty :: "unit attendance_screen" where
  "att_empty = att_admin\<lparr>storage := (storage att_admin)\<lparr>attendanceItems := []\<rparr>\<rparr>"

definition clock0 :: "nat \<Rightarrow> timestamp" where
  "clock0 k = 1728064800000 + int k"

definition now0 :: timestamp where
  "now0 = 1728064800000"

text \<open>
  A query in San Francisco on the 5th of November 2024 at 18:00 UTC, two days after the
  end of daylight time, over a ledger with one record of Alice, checked in on the 29th of
  October at 17:30 UTC: seven days and half an hour before the query.
\<close>

definition rec_alice_october :: attendance where
  "rec_alice_october = checkInData alice_assigned 20025 1730223000000 at_office"

definition att_november :: "unit attendance_screen" where
  "att_november =
     att_admin\<lparr>storage := (storage att_admin)
                  \<lparr>attendanceItems := [((''alice@onsite.com'', 20025), rec_alice_october)]\<rparr>\<rparr>"

definition now_november :: timestamp where
  "now_november = 1730829600000"

section \<open>Properties\<close>

subsection \<open>Profile screen\<close>

text \<open>
  C9. Rejecting a role-change request leaves the storage as it was: the users collection,
  and with it the \<open>roleChangeRequested\<close> flag of every user, is unchanged, and nothing
  is recorded about the rejection. The only change of the screen is that the requests
  with the rejected id leave the in-memory list.
\<close>

theorem handleRejectRequest_frame:
  "storage (handleRejectRequest userId s) = storage s \<and>
   (\<forall>us u. users (storage s) = Some us \<and> u \<in> set us \<and> roleChangeRequested u \<longrightarrow>
      users (storage (handleRejectRequest userId s)) = Some us \<and> roleChangeRequested u) \<and>
   roleRequests (handleRejectRequest userId s) =
     filter (\<lambda>req. role_request.id req \<noteq> userId) (roleRequests s) \<and>
   handleRejectRequest userId s = s\<lparr>roleRequests := roleRequests (handleRejectRequest userId s)\<rparr>"
  by (simp add: handleRejectRequest_def)

theorem handleRejectRequest_frame_witness:
  "users (storage profile0) = Some [admin, alice, bob] \<and> roleChangeRequested alice \<and>
   users (storage (handleRejectRequest ''u1'' profile0)) = Some [admin, alice, bob] \<and>
   roleRequests (handleRejectRequest ''u1'' profile0) = []"
  using handleRejectRequest_frame [of "''u1''" profile0]
  by (simp add: profile0_def alice_def)

text \<open>
  C10. When an employee is selected and the entered latitude, longitude and radius parse
  as numbers, the users collection written back has the length of the one read; a user
  whose email is not the selected employee's is unchanged, and a user with that email is
  changed in \<open>assignedLocation\<close> only, which becomes the object of the name, the latitude,
  the longitude and the radius that the form holds, as texts. The other keys of the
  storage are not written.
\<close>

theorem handleSaveGeofence_frame:
  assumes sel: "selectedEmployee s = Some sel"
    and lat: "\<not> isNaN ar (parseFloat ar (geofence_form.latitude (geofenceLocation s)))"
    and lon: "\<not> isNaN ar (parseFloat ar (geofence_form.longitude (geofenceLocation s)))"
    and rad: "\<not> isNaN ar (parseFloat ar (geofence_form.radius (geofenceLocation s)))"
    and us: "users (storage s) = Some us"
  shows "\<exists>us'. users (storage (handleSaveGeofence ar s)) = Some us' \<and>
           attendanceItems (storage (handleSaveGeofence ar s)) = attendanceItems (storage s) \<and>
           employeeLocations (storage (handleSaveGeofence ar s)) = employeeLocations (storage s) \<and>
           length us' = length us \<and>
           (\<forall>i < length us.
              (user.email (us ! i) \<noteq> user.email sel \<longrightarrow> us' ! i = us ! i) \<and>
              (user.email (us ! i) = user.email sel \<longrightarrow>
                 us' ! i =
                   (us ! i)\<lparr>assignedLocation :=
                     Some \<lparr>assigned_location.name = Some (geofence_form.name (geofenceLocation s)),
                           latitude = Some (geofence_form.latitude (geofenceLocation s)),
                           longitude = Some (geofence_form.longitude (geofenceLocation s)),
                           radius = Some (geofence_form.radius (geofenceLocation s))\<rparr>\<rparr>) \<and>
              user.id (us' ! i) = user.id (us ! i) \<and>
              user.email (us' ! i) = user.email (us ! i) \<and>
              user.password (us' ! i) = user.password (us ! i) \<and>
              user.name (us' ! i) = user.name (us ! i) \<and>
              user.department (us' ! i) = user.department (us ! i) \<and>
              user.role (us' ! i) = user.role (us ! i) \<and>
              roleChangeRequested (us' ! i) = roleChangeRequested (us ! i) \<and>
              notificationSettings (us' ! i) = notificationSettings (us ! i) \<and>
              user.more (us' ! i) = user.more (us ! i))"
  using assms by (auto simp: handleSaveGeofence_def notify_def Let_def)

theorem handleSaveGeofence_frame_witness:
  "selectedEmployee profile0 = Some alice \<and>
   \<not> isNaN exact (parseFloat exact ''40.7128'') \<and>
   \<not> isNaN exact (parseFloat exact ''-74.006'') \<and>
   \<not> isNaN exact (parseFloat exact ''250'') \<and>
   users (storage profile0) = Some [admin, alice, bob] \<and>
   users (storage (handleSaveGeofence exact profile0)) =
     Some [admin,
           alice\<lparr>assignedLocation :=
                   Some \<lparr>assigned_location.name = Some ''Warehouse'', latitude = Some ''40.7128'',
                         longitude = Some ''-74.006'', radius = Some ''250''\<rparr>\<rparr>,
           bob]"
proof -
  have f: "geofenceLocation profile0 = warehouse_form" by (simp add: profile0_def)
  have a: "selectedEmployee profile0 = Some alice" by (simp add: profile0_def)
  have b: "\<not> isNaN exact (parseFloat exact (geofence_form.latitude (geofenceLocation profile0)))"
    by (simp add: f warehouse_form_def exact_def parseFloat_sample_def)
  have c: "\<not> isNaN exact (parseFloat exact (geofence_form.longitude (geofenceLocation profile0)))"
    by (simp add: f warehouse_form_def exact_def parseFloat_sample_def)
  have d: "\<not> isNaN exact (parseFloat exact (geofence_form.radius (geofenceLocation profile0)))"
    by (simp add: f warehouse_form_def exact_def parseFloat_sample_def)
  have e: "users (storage profile0) = Some [admin, alice, bob]" by (simp add: profile0_def)
  let ?loc = "\<lparr>assigned_location.name = Some (geofence_form.name (geofenceLocation profile0)),
               latitude = Some (geofence_form.latitude (geofenceLocation profile0)),
               longitude = Some (geofence_form.longitude (geofenceLocation profile0)),
               radius = Some (geofence_form.radius (geofenceLocation profile0))\<rparr>"
  from handleSaveGeofence_frame [OF a b c d e]
  obtain us' where u: "users (storage (handleSaveGeofence exact profile0)) = Some us'"
    and l: "length us' = length [admin, alice, bob]"
    and g: "\<forall>i < length [admin, alice, bob].
              (user.email ([admin, alice, bob] ! i) \<noteq> user.email alice \<longrightarrow>
                 us' ! i = [admin, alice, bob] ! i) \<and>
              (user.email ([admin, alice, bob] ! i) = user.email alice \<longrightarrow>
                 us' ! i = ([admin, alice, bob] ! i)\<lparr>assignedLocation := Some ?loc\<rparr>)"
    by blast
  from g have "us' ! 0 = admin"
    "us' ! Suc 0 = alice\<lparr>assignedLocation := Some ?loc\<rparr>"
    "us' ! Suc (Suc 0) = bob"
    by (simp_all add: admin_def alice_def bob_def)
  with l have "us' = [admin, alice\<lparr>assignedLocation := Some ?loc\<rparr>, bob]"
    by (simp add: list_eq_iff_nth_eq nth_Cons' less_Suc_eq numeral_3_eq_3)
  with a b c d e u show ?thesis by (simp add: f warehouse_form_def)
qed

subsection \<open>Hours\<close>

lemma pow2_powr: "pow2 e = 2 powr (of_int e)"
proof (cases "0 \<le> e")
  case True
  then have "(2::real) powr (of_int e) = 2 powr (real (nat e))" by simp
  also have "\<dots> = 2 ^ nat e" by (rule powr_realpow) simp
  finally show ?thesis using True by (simp add: pow2_def)
next
  case False
  then have "(2::real) powr (of_int e) = 2 powr (- real (nat (- e)))" by simp
  also have "\<dots> = 1 / 2 powr (real (nat (- e)))" by (rule powr_minus_divide)
  also have "2 powr (real (nat (- e))) = (2::real) ^ nat (- e)" by (rule powr_realpow) simp
  finally show ?thesis using False by (simp add: pow2_def)
qed

lemma pow2_pos: "0 < pow2 e"
  by (simp add: pow2_powr)






lemma pow2_add: "pow2 (a + b) = pow2 a * pow2 b"
  by (simp add: pow2_powr powr_add)

lemma pow2_nat: "pow2 (int n) = 2 ^ n"
  by (simp add: pow2_def)

text \<open>\<open>binaryExponent\<close> is the binary exponent of the quotient.\<close>

lemma binaryExponent_bounds:
  assumes p: "0 < p" and q: "0 < q"
  shows "pow2 (binaryExponent p q) * of_int q \<le> of_int p"
    and "of_int p < pow2 (binaryExponent p q + 1) * of_int q"
proof -
  define bp where "bp = nat (bitlen p - 1)"
  define bq where "bq = nat (bitlen q - 1)"
  have "bitlen p \<noteq> 0" "bitlen q \<noteq> 0" using p q by (simp_all add: bitlen_eq_zero_iff)
  then have "1 \<le> bitlen p" "1 \<le> bitlen q"
    using bitlen_nonneg [of p] bitlen_nonneg [of q] by linarith+
  then have lp: "bitlen p = int bp + 1" and lq: "bitlen q = int bq + 1"
    by (simp_all add: bp_def bq_def)
  have np: "nat (bitlen p) = bp + 1" and nq: "nat (bitlen q) = bq + 1"
    by (simp_all add: lp lq)
  have "2 ^ bp \<le> p" "p < 2 ^ (bp + 1)" "2 ^ bq \<le> q" "q < 2 ^ (bq + 1)"
    using bitlen_bounds [OF p] bitlen_bounds [OF q]
    unfolding np nq bp_def [symmetric] bq_def [symmetric] by blast+
  then have rp: "(2::real) ^ bp \<le> of_int p" "of_int p < (2::real) ^ (bp + 1)"
    and rq: "(2::real) ^ bq \<le> of_int q" "of_int q < (2::real) ^ (bq + 1)"
    by (metis of_int_le_iff of_int_less_iff of_int_numeral of_int_power)+
  define e where "e = bitlen p - bitlen q"
  have e: "e = int bp - int bq" by (simp add: e_def lp lq)
  have up: "of_int p < pow2 (e + 1) * of_int q"
  proof -
    have "pow2 (e + 1) * 2 ^ bq = pow2 (e + 1 + int bq)" by (simp add: pow2_add pow2_nat)
    also have "\<dots> = 2 ^ (bp + 1)" using pow2_nat [of "bp + 1"] by (simp add: e add.commute)
    finally have "pow2 (e + 1) * 2 ^ bq = 2 ^ (bp + 1)" .
    with rp(2) have "of_int p < pow2 (e + 1) * 2 ^ bq" by linarith
    also have "\<dots> \<le> pow2 (e + 1) * of_int q"
      using rq(1) pow2_pos [of "e + 1"] by (intro mult_left_mono) simp_all
    finally show ?thesis .
  qed
  have lo: "pow2 (e - 1) * of_int q \<le> of_int p"
  proof -
    have "pow2 (e - 1) * of_int q \<le> pow2 (e - 1) * 2 ^ (bq + 1)"
      using rq(2) pow2_pos [of "e - 1"] by (intro mult_left_mono) simp_all
    also have "\<dots> = pow2 (e - 1 + int (bq + 1))" by (simp only: pow2_add pow2_nat)
    also have "\<dots> = 2 ^ bp" using pow2_nat [of bp] by (simp add: e)
    finally have "pow2 (e - 1) * of_int q \<le> 2 ^ bp" .
    with rp(1) show ?thesis by linarith
  qed
  show "pow2 (binaryExponent p q) * of_int q \<le> of_int p"
    using lo by (simp add: binaryExponent_def Let_def e_def [symmetric])
  show "of_int p < pow2 (binaryExponent p q + 1) * of_int q"
    using up by (auto simp: binaryExponent_def Let_def e_def [symmetric] not_le)
qed






lemma calculateHours_example: "calculateHours (Some 1728032400000) 1728063000000 = Some 8.5"
  by code_simp

subsection \<open>The arithmetic of the examples\<close>

lemma exact_simps:
  "num exact r = Some r"
  "num_add exact (Some x) (Some y) = Some (x + y)"
  "num_sub exact (Some x) (Some y) = Some (x - y)"
  "num_mul exact (Some x) (Some y) = Some (x * y)"
  "y \<noteq> 0 \<Longrightarrow> num_div exact (Some x) (Some y) = Some (x / y)"
  "num_le exact (Some x) (Some y) = (x \<le> y)"
  "Math_sin exact (Some x) = Some (sin x)"
  "Math_cos exact (Some x) = Some (cos x)"
  "0 \<le> x \<Longrightarrow> Math_sqrt exact (Some x) = Some (sqrt x)"
  "Math_atan2 exact (Some y) (Some x) = Some (atan2_real y x)"
  "Math_PI exact = Some pi"
  "toBoolean exact (Some x) = (x \<noteq> 0)"
  "parseFloat exact = parseFloat_sample"
  by (simp_all add: exact_def lift2_def)

lemma deg2rad_exact: "deg2rad exact (Some x) = Some (x * (pi / 180))"
  by (simp add: deg2rad_def exact_simps)

text \<open>On this arithmetic a point is at distance 0 from itself, and at distance \<open>6371 \<pi>\<close>
  from its antipode.\<close>

lemma calculateDistance_exact_same:
  "calculateDistance exact (Some lat) (Some lon) (Some lat) (Some lon) = Some 0"
  by (simp add: calculateDistance_def Let_def deg2rad_exact exact_simps atan2_real_def)


lemma geofence_home0: "geofence exact (user home0) = Some office"
  by (simp add: geofence_def home0_def alice_assigned_def alice_def parseField_def
      exact_simps parseFloat_sample_def office_def Let_def)

lemma isInsideOf_at_office: "isInsideOf exact at_office office"
proof -
  have "calculateDistance exact (Some (coords.latitude at_office)) (Some (coords.longitude at_office))
          (geofence.latitude office) (geofence.longitude office) = Some 0"
    unfolding office_def at_office_def
    using calculateDistance_exact_same [of "37.7749" "- 122.4194"] by simp
  then show ?thesis
    by (simp add: isInsideOf_def Let_def exact_simps office_def)
qed


subsection \<open>Geofence evaluator\<close>

lemma locationStatus_updateLocationStatus:
  "geofence ar (user s) = Some g \<Longrightarrow>
   locationStatus (updateLocationStatus ar clock c s) =
     (if isInsideOf ar c g then Inside else Outside)"
  by (simp add: updateLocationStatus_def Let_def split: option.splits)

lemma updateLocationStatus_unknown:
  "geofence ar (user s) = None \<Longrightarrow>
   updateLocationStatus ar clock c s = s\<lparr>locationStatus := Unknown\<rparr>"
  by (simp add: updateLocationStatus_def)

text \<open>The radius of the geofence constant is the parsed radius, and 100 when that is falsy
  (\<open>NaN\<close> or 0).\<close>

lemma geofence_radius:
  "geofence ar (Some u) = Some g \<Longrightarrow> assignedLocation u = Some a \<Longrightarrow>
   geofence.radius g =
     (let r = parseField ar (assigned_location.radius a) in
      if toBoolean ar r then r else num ar 100)"
  by (auto simp: geofence_def Let_def split: if_splits)

subsection \<open>Attendance\<close>

lemma updateLocationStatus_frame:
  "attendanceItems (storage (updateLocationStatus ar clock c s)) = attendanceItems (storage s)"
  "users (storage (updateLocationStatus ar clock c s)) = users (storage s)"
  "user (updateLocationStatus ar clock c s) = user s"
  "alerts (updateLocationStatus ar clock c s) = alerts s"
  "attendanceStatus (updateLocationStatus ar clock c s) = attendanceStatus s"
  "positionQueries (updateLocationStatus ar clock c s) = positionQueries s"
  "fetchingLocation (updateLocationStatus ar clock c s) = fetchingLocation s"
  by (simp_all add: updateLocationStatus_def Let_def split: option.splits)

lemma getItem_updateLocationStatus:
  "getItem (storage (updateLocationStatus ar clock c s)) k = getItem (storage s) k"
  by (simp add: getItem_def updateLocationStatus_frame)

lemma getItem_setItem: "getItem (setItem k v st) k' = (if k' = k then Some v else getItem st k')"
  by (simp add: getItem_def setItem_def update_conv')

lemma attendanceItems_setItem:
  "attendanceItems (setItem k v st) = AList.update k v (attendanceItems st)"
  by (simp add: setItem_def)

lemma handleAttendance_cases:
  assumes u: "user s = Some u" and g: "geofence ar (user s) = Some g"
  shows "handleAttendance ar dev s =
     (if locationStatus s \<noteq> Inside
      then notify (Error ''You must be inside your assigned location to check in or out.'') s
      else (case position dev of
          None \<Rightarrow> notify (Error ''Failed to process your attendance.'')
                        (s\<lparr>positionQueries := positionQueries s + 1, fetchingLocation := False\<rparr>)
        | Some c \<Rightarrow>
            let s1 = updateLocationStatus ar (snapshotClock dev) c
                       (s\<lparr>positionQueries := positionQueries s + 1\<rparr>)
            in if \<not> isInsideOf ar c g
               then notify (Error ''You must be inside your assigned location to check in or out.'')
                      (s1\<lparr>fetchingLocation := False\<rparr>)
               else (case getItem (storage s) (user.email u, isoDate (todayClock dev)) of
                   None \<Rightarrow> (checkIn u (isoDate (todayClock dev)) (currentClock dev) c s1)
                               \<lparr>fetchingLocation := False\<rparr>
                 | Some r \<Rightarrow>
                     if attendanceStatus s = Some False
                     then (checkIn u (isoDate (todayClock dev)) (currentClock dev) c s1)
                               \<lparr>fetchingLocation := False\<rparr>
                     else (checkOut u (isoDate (todayClock dev)) (currentClock dev) c r s1)
                               \<lparr>fetchingLocation := False\<rparr>)))"
  using u g
  by (simp add: handleAttendance_def Let_def getItem_updateLocationStatus
      split: option.splits)

lemma locationStatus_after_update:
  "geofence ar (user s) = Some g \<Longrightarrow> isInsideOf ar c g \<Longrightarrow>
   locationStatus (updateLocationStatus ar clock c s) = Inside"
  by (simp add: locationStatus_updateLocationStatus)

lemma checkIn_frame:
  "user (checkIn u today t c s) = user s"
  "locationStatus (checkIn u today t c s) = locationStatus s"
  "attendanceStatus (checkIn u today t c s) = Some True"
  "positionQueries (checkIn u today t c s) = positionQueries s"
  "alerts (checkIn u today t c s) = alerts s @ [CheckedInAt t]"
  "attendanceItems (storage (checkIn u today t c s)) =
     AList.update (user.email u, today)
       (checkInData u today t c)
       (attendanceItems (storage s))"
  by (simp_all add: checkIn_def notify_def Let_def setItem_def)

lemma checkOut_frame:
  "user (checkOut u today t c r s) = user s"
  "locationStatus (checkOut u today t c r s) = locationStatus s"
  "attendanceStatus (checkOut u today t c r s) = Some False"
  "positionQueries (checkOut u today t c r s) = positionQueries s"
  "alerts (checkOut u today t c r s) = alerts s @ [CheckedOutAt t (calculateHours (checkInTime r) t)]"
  "attendanceItems (storage (checkOut u today t c r s)) =
     AList.update (user.email u, today)
       (r\<lparr>checkOutTime := Some t, checkOutLocation := Some c,
          totalHours := calculateHours (checkInTime r) t\<rparr>)
       (attendanceItems (storage s))"
  by (simp_all add: checkOut_def notify_def Let_def setItem_def)

text \<open>What a successful run does, in the two branches.\<close>

lemma handleAttendance_checks_in:
  assumes u: "user s = Some u" and g: "geofence ar (user s) = Some g"
    and cached: "locationStatus s = Inside"
    and p: "position dev = Some c" and ins: "isInsideOf ar c g"
    and first: "getItem (storage s) (user.email u, isoDate (todayClock dev)) = None \<or>
                attendanceStatus s = Some False"
  shows "user (handleAttendance ar dev s) = user s"
    and "locationStatus (handleAttendance ar dev s) = Inside"
    and "attendanceStatus (handleAttendance ar dev s) = Some True"
    and "attendanceItems (storage (handleAttendance ar dev s)) =
           AList.update (user.email u, isoDate (todayClock dev))
             (checkInData u (isoDate (todayClock dev)) (currentClock dev) c)
             (attendanceItems (storage s))"
    and "alerts (handleAttendance ar dev s) = alerts s @ [CheckedInAt (currentClock dev)]"
proof -
  let ?s1 = "updateLocationStatus ar (snapshotClock dev) c
               (s\<lparr>positionQueries := positionQueries s + 1\<rparr>)"
  have eq: "handleAttendance ar dev s =
      (checkIn u (isoDate (todayClock dev)) (currentClock dev) c ?s1)\<lparr>fetchingLocation := False\<rparr>"
    using first cached p ins
    by (auto simp: handleAttendance_cases [OF u g] Let_def split: option.splits)
  show "user (handleAttendance ar dev s) = user s"
    by (simp add: eq checkIn_frame updateLocationStatus_frame)
  show "locationStatus (handleAttendance ar dev s) = Inside"
    using g ins by (simp add: eq checkIn_frame locationStatus_updateLocationStatus)
  show "attendanceStatus (handleAttendance ar dev s) = Some True"
    by (simp add: eq checkIn_frame)
  show "attendanceItems (storage (handleAttendance ar dev s)) =
           AList.update (user.email u, isoDate (todayClock dev))
             (checkInData u (isoDate (todayClock dev)) (currentClock dev) c)
             (attendanceItems (storage s))"
    by (simp add: eq checkIn_frame updateLocationStatus_frame)
  show "alerts (handleAttendance ar dev s) = alerts s @ [CheckedInAt (currentClock dev)]"
    by (simp add: eq checkIn_frame updateLocationStatus_frame)
qed

lemma handleAttendance_checks_out:
  assumes u: "user s = Some u" and g: "geofence ar (user s) = Some g"
    and cached: "locationStatus s = Inside"
    and p: "position dev = Some c" and ins: "isInsideOf ar c g"
    and stored: "getItem (storage s) (user.email u, isoDate (todayClock dev)) = Some r"
    and st: "attendanceStatus s \<noteq> Some False"
  shows "user (handleAttendance ar dev s) = user s"
    and "locationStatus (handleAttendance ar dev s) = Inside"
    and "attendanceStatus (handleAttendance ar dev s) = Some False"
    and "attendanceItems (storage (handleAttendance ar dev s)) =
           AList.update (user.email u, isoDate (todayClock dev))
             (r\<lparr>checkOutTime := Some (currentClock dev), checkOutLocation := Some c,
                totalHours := calculateHours (checkInTime r) (currentClock dev)\<rparr>)
             (attendanceItems (storage s))"
    and "alerts (handleAttendance ar dev s) =
           alerts s @ [CheckedOutAt (currentClock dev)
                         (calculateHours (checkInTime r) (currentClock dev))]"
proof -
  let ?s1 = "updateLocationStatus ar (snapshotClock dev) c
               (s\<lparr>positionQueries := positionQueries s + 1\<rparr>)"
  have eq: "handleAttendance ar dev s =
      (checkOut u (isoDate (todayClock dev)) (currentClock dev) c r ?s1)\<lparr>fetchingLocation := False\<rparr>"
    using stored st cached p ins
    by (auto simp: handleAttendance_cases [OF u g] Let_def split: option.splits)
  show "user (handleAttendance ar dev s) = user s"
    by (simp add: eq checkOut_frame updateLocationStatus_frame)
  show "locationStatus (handleAttendance ar dev s) = Inside"
    using g ins by (simp add: eq checkOut_frame locationStatus_updateLocationStatus)
  show "attendanceStatus (handleAttendance ar dev s) = Some False"
    by (simp add: eq checkOut_frame)
  show "attendanceItems (storage (handleAttendance ar dev s)) =
           AList.update (user.email u, isoDate (todayClock dev))
             (r\<lparr>checkOutTime := Some (currentClock dev), checkOutLocation := Some c,
                totalHours := calculateHours (checkInTime r) (currentClock dev)\<rparr>)
             (attendanceItems (storage s))"
    by (simp add: eq checkOut_frame updateLocationStatus_frame)
  show "alerts (handleAttendance ar dev s) =
           alerts s @ [CheckedOutAt (currentClock dev)
                         (calculateHours (checkInTime r) (currentClock dev))]"
    by (simp add: eq checkOut_frame updateLocationStatus_frame)
qed

text \<open>A run that does not reach one of the two branches leaves the ledger alone.\<close>

lemma handleAttendance_rejected:
  assumes "user s = None \<or> geofence ar (user s) = None \<or> locationStatus s \<noteq> Inside \<or>
           position dev = None \<or> (\<exists>c g. position dev = Some c \<and>
             geofence ar (user s) = Some g \<and> \<not> isInsideOf ar c g)"
  shows "attendanceItems (storage (handleAttendance ar dev s)) = attendanceItems (storage s)"
    and "attendanceStatus (handleAttendance ar dev s) = attendanceStatus s"
  using assms
  by (auto simp: handleAttendance_def notify_def Let_def updateLocationStatus_frame
      split: option.splits)

lemma count_key_update:
  "distinct (map fst al) \<Longrightarrow> length (filter (\<lambda>kv. fst kv = k) (AList.update k v al)) = 1"
proof (induction al)
  case Nil
  then show ?case by simp
next
  case (Cons a al)
  then show ?case
    by (cases a) (auto simp: filter_empty_conv image_iff)
qed

text \<open>
  C4. For a user without an assigned geofence every run of \<open>handleAttendance\<close> ends with
  the notice that no location is assigned, and writes nothing: the storage, and with it
  the attendance ledger, is what it was before, and no position is queried.
\<close>

theorem handleAttendance_no_geofence:
  assumes "user s = Some u" and "assignedLocation u = None"
  shows "storage (handleAttendance ar dev s) = storage s \<and>
         alerts (handleAttendance ar dev s) =
           alerts s @ [Error ''You have no assigned location. Please contact your administrator.''] \<and>
         attendanceStatus (handleAttendance ar dev s) = attendanceStatus s \<and>
         positionQueries (handleAttendance ar dev s) = positionQueries s"
  using assms by (simp add: handleAttendance_def geofence_def notify_def)

theorem handleAttendance_no_geofence_witness:
  "user home_unassigned = Some alice \<and> assignedLocation alice = None \<and>
   storage (handleAttendance exact dev_in home_unassigned) = storage home_unassigned \<and>
   alerts (handleAttendance exact dev_in home_unassigned) =
     [Error ''You have no assigned location. Please contact your administrator.'']"
proof -
  have a: "user home_unassigned = Some alice" by (simp add: home_unassigned_def)
  have b: "assignedLocation alice = None" by (simp add: alice_def)
  have "alerts home_unassigned = []" by (simp add: home_unassigned_def home0_def)
  with handleAttendance_no_geofence [OF a b, of exact dev_in] a b
  show ?thesis by simp
qed



text \<open>The screen after a check-in followed by a check-out under the same key.\<close>

lemma check_in_then_check_out_state:
  assumes u: "user s = Some u"
    and g: "geofence ar (user s) = Some g"
    and cached: "locationStatus s = Inside"
    and first: "getItem (storage s) (user.email u, isoDate (todayClock d1)) = None \<or>
                attendanceStatus s = Some False"
    and p1: "position d1 = Some c1" and in1: "isInsideOf ar c1 g"
    and p2: "position d2 = Some c2" and in2: "isInsideOf ar c2 g"
    and day: "isoDate (todayClock d2) = isoDate (todayClock d1)"
  shows "user (handleAttendance ar d2 (handleAttendance ar d1 s)) = user s"
    and "locationStatus (handleAttendance ar d2 (handleAttendance ar d1 s)) = Inside"
    and "attendanceStatus (handleAttendance ar d2 (handleAttendance ar d1 s)) =
           Some False"
    and "getItem (storage (handleAttendance ar d2 (handleAttendance ar d1 s)))
           (user.email u, isoDate (todayClock d1)) =
         Some ((checkInData u (isoDate (todayClock d1)) (currentClock d1) c1)
                 \<lparr>checkOutTime := Some (currentClock d2), checkOutLocation := Some c2,
                  totalHours := calculateHours (Some (currentClock d1)) (currentClock d2)\<rparr>)"
    and "distinct (map fst (attendanceItems (storage s))) \<Longrightarrow>
         length (filter (\<lambda>kv. fst kv = (user.email u, isoDate (todayClock d1)))
           (attendanceItems (storage
              (handleAttendance ar d2 (handleAttendance ar d1 s))))) = 1"
proof -
  let ?k = "(user.email u, isoDate (todayClock d1))"
  let ?s1 = "handleAttendance ar d1 s"
  let ?s2 = "handleAttendance ar d2 ?s1"
  let ?r1 = "checkInData u (isoDate (todayClock d1)) (currentClock d1) c1"
  let ?r2 = "?r1\<lparr>checkOutTime := Some (currentClock d2), checkOutLocation := Some c2,
                totalHours := calculateHours (checkInTime ?r1) (currentClock d2)\<rparr>"
  note in1' = handleAttendance_checks_in [OF u g cached p1 in1 first]
  have u1: "user ?s1 = Some u" using in1'(1) u by simp
  have g1: "geofence ar (user ?s1) = Some g" using in1'(1) g by simp
  have items1: "attendanceItems (storage ?s1) = AList.update ?k ?r1 (attendanceItems (storage s))"
    by (rule in1'(4))
  have stored: "getItem (storage ?s1) (user.email u, isoDate (todayClock d2)) = Some ?r1"
    by (simp add: getItem_def items1 update_conv' day)
  have st: "attendanceStatus ?s1 \<noteq> Some False" using in1'(3) by simp
  note out = handleAttendance_checks_out [OF u1 g1 in1'(2) p2 in2 stored st]
  have items2: "attendanceItems (storage ?s2) = AList.update ?k ?r2 (attendanceItems (storage ?s1))"
    using out(4) by (simp add: day)
  show "user ?s2 = user s" using out(1) in1'(1) by simp
  show "locationStatus ?s2 = Inside" by (rule out(2))
  show "attendanceStatus ?s2 = Some False" by (rule out(3))
  show "getItem (storage ?s2) ?k =
         Some (?r1\<lparr>checkOutTime := Some (currentClock d2), checkOutLocation := Some c2,
                  totalHours := calculateHours (Some (currentClock d1)) (currentClock d2)\<rparr>)"
    by (simp add: getItem_def items2 update_conv' checkInData_def)
  show "length (filter (\<lambda>kv. fst kv = ?k) (attendanceItems (storage ?s2))) = 1"
    if "distinct (map fst (attendanceItems (storage s)))"
    using that unfolding items2 items1 by (simp add: count_key_update distinct_update)
qed




text \<open>On opening the screen, \<open>getAttendanceStatus\<close> reads the status off the record of the day.\<close>

lemma getAttendanceStatus_checked_out:
  assumes "user s = Some u"
    and "getItem (storage s) (user.email u, isoDate clock) = Some r"
  shows "attendanceStatus (getAttendanceStatus clock s) = Some (dayState (Some r) = CheckedIn)"
  using assms by (simp add: getAttendanceStatus_def dayState_def)

text \<open>
  C3, as amended. With a geofence assigned, a run that succeeds (cached status inside, the
  position sampled inside) takes a day without record to \<open>CheckedIn\<close>; on a day with a
  record it writes the check-out fields, giving \<open>CheckedOut\<close>, unless \<open>attendanceStatus\<close>
  is false, the value the screen holds after a check-out: then it replaces the record by
  a new check-in record, so that \<open>CheckedOut\<close> is not terminal. A run that fails leaves
  the ledger unchanged.
\<close>

theorem attendance_day_transitions:
  assumes u: "user s = Some u" and g: "geofence ar (user s) = Some g"
  shows "(\<forall>c. locationStatus s = Inside \<and> position dev = Some c \<and> isInsideOf ar c g \<and>
              getItem (storage s) (user.email u, isoDate (todayClock dev)) = None \<longrightarrow>
              dayState (getItem (storage (handleAttendance ar dev s))
                          (user.email u, isoDate (todayClock dev))) = CheckedIn) \<and>
         (\<forall>c r. locationStatus s = Inside \<and> position dev = Some c \<and> isInsideOf ar c g \<and>
              getItem (storage s) (user.email u, isoDate (todayClock dev)) = Some r \<and>
              attendanceStatus s \<noteq> Some False \<longrightarrow>
              getItem (storage (handleAttendance ar dev s))
                (user.email u, isoDate (todayClock dev)) =
                Some (r\<lparr>checkOutTime := Some (currentClock dev), checkOutLocation := Some c,
                         totalHours := calculateHours (checkInTime r) (currentClock dev)\<rparr>) \<and>
              dayState (getItem (storage (handleAttendance ar dev s))
                          (user.email u, isoDate (todayClock dev))) = CheckedOut) \<and>
         (\<forall>c r. locationStatus s = Inside \<and> position dev = Some c \<and> isInsideOf ar c g \<and>
              getItem (storage s) (user.email u, isoDate (todayClock dev)) = Some r \<and>
              attendanceStatus s = Some False \<longrightarrow>
              getItem (storage (handleAttendance ar dev s))
                (user.email u, isoDate (todayClock dev)) =
                Some (checkInData u (isoDate (todayClock dev)) (currentClock dev) c) \<and>
              dayState (getItem (storage (handleAttendance ar dev s))
                          (user.email u, isoDate (todayClock dev))) = CheckedIn) \<and>
         (locationStatus s \<noteq> Inside \<or> position dev = None \<or>
            (\<exists>c. position dev = Some c \<and> \<not> isInsideOf ar c g) \<longrightarrow>
              attendanceItems (storage (handleAttendance ar dev s)) =
                attendanceItems (storage s))"
proof -
  let ?k = "(user.email u, isoDate (todayClock dev))"
  let ?s' = "handleAttendance ar dev s"
  have a: "getItem (storage ?s') ?k = Some (checkInData u (isoDate (todayClock dev)) (currentClock dev) c)"
    if "locationStatus s = Inside" "position dev = Some c" "isInsideOf ar c g"
      "getItem (storage s) ?k = None \<or> attendanceStatus s = Some False" for c
    using handleAttendance_checks_in(4) [OF u g that]
    by (simp add: getItem_def update_conv' checkInData_def)
  have b: "getItem (storage ?s') ?k =
      Some (r\<lparr>checkOutTime := Some (currentClock dev), checkOutLocation := Some c,
               totalHours := calculateHours (checkInTime r) (currentClock dev)\<rparr>)"
    if "locationStatus s = Inside" "position dev = Some c" "isInsideOf ar c g"
      "getItem (storage s) ?k = Some r" "attendanceStatus s \<noteq> Some False" for c r
    using handleAttendance_checks_out(4) [OF u g that]
    by (simp add: getItem_def update_conv')
  have d: "attendanceItems (storage ?s') = attendanceItems (storage s)"
    if "locationStatus s \<noteq> Inside \<or> position dev = None \<or>
        (\<exists>c. position dev = Some c \<and> \<not> isInsideOf ar c g)"
    using that g by (intro handleAttendance_rejected(1)) auto
  show ?thesis
    using a b d by (auto simp: dayState_def checkInData_def)
qed


lemma home_after_out_state:
  "user home_after_out = Some alice_assigned"
  "locationStatus home_after_out = Inside"
  "attendanceStatus home_after_out = Some False"
  "getItem (storage home_after_out) (''alice@onsite.com'', 20000) =
     Some ((checkInData alice_assigned 20000 1728032400000 at_office)
             \<lparr>checkOutTime := Some 1728063000000, checkOutLocation := Some at_office,
              totalHours := Some 8.5\<rparr>)"
proof -
  have u: "user home0 = Some alice_assigned" by (simp add: home0_def)
  have e: "user.email alice_assigned = ''alice@onsite.com''"
    by (simp add: alice_assigned_def alice_def)
  have d: "isoDate (todayClock dev_in) = 20000" "isoDate (todayClock dev_out) = 20000"
    by (simp_all add: isoDate_def dev_in_def dev_out_def)
  have c: "locationStatus home0 = Inside" by (simp add: home0_def)
  have f: "getItem (storage home0) (user.email alice_assigned, isoDate (todayClock dev_in)) = None \<or>
           attendanceStatus home0 = Some False"
    by (simp add: home0_def)
  have p: "position dev_in = Some at_office" "position dev_out = Some at_office"
    by (simp_all add: dev_in_def dev_out_def)
  have t: "currentClock dev_in = 1728032400000" "currentClock dev_out = 1728063000000"
    by (simp_all add: dev_in_def dev_out_def)
  have dd: "isoDate (todayClock dev_out) = isoDate (todayClock dev_in)" by (simp add: d)
  note st = check_in_then_check_out_state [OF u geofence_home0 c f p(1) isInsideOf_at_office
      p(2) isInsideOf_at_office dd, folded home_after_out_def]
  show "user home_after_out = Some alice_assigned" using st(1) u by simp
  show "locationStatus home_after_out = Inside" by (rule st(2))
  show "attendanceStatus home_after_out = Some False" by (rule st(3))
  show "getItem (storage home_after_out) (''alice@onsite.com'', 20000) =
     Some ((checkInData alice_assigned 20000 1728032400000 at_office)
             \<lparr>checkOutTime := Some 1728063000000, checkOutLocation := Some at_office,
              totalHours := Some 8.5\<rparr>)"
    using st(4) unfolding e d t calculateHours_example .
qed

text \<open>
  C3 as stated fails: after a check-in at 09:00 and a check-out at 17:30 the record of the
  day has \<open>checkOutTime\<close>, and the next run at 18:00 replaces it by a new check-in
  record.
\<close>

theorem checked_out_replaced_counterexample:
  "dayState (getItem (storage home_after_out) (''alice@onsite.com'', 20000)) = CheckedOut \<and>
   getItem (storage (handleAttendance exact dev_again home_after_out))
     (''alice@onsite.com'', 20000) =
     Some (checkInData alice_assigned 20000 1728064800000 at_office) \<and>
   dayState (getItem (storage (handleAttendance exact dev_again home_after_out))
     (''alice@onsite.com'', 20000)) = CheckedIn"
proof -
  have e: "user.email alice_assigned = ''alice@onsite.com''"
    by (simp add: alice_assigned_def alice_def)
  have g: "geofence exact (user home_after_out) = Some office"
    using geofence_home0 by (simp add: home_after_out_state(1) home0_def)
  have d: "isoDate (todayClock dev_again) = 20000" "currentClock dev_again = 1728064800000"
    "position dev_again = Some at_office"
    by (simp_all add: isoDate_def dev_again_def)
  have f: "getItem (storage home_after_out)
             (user.email alice_assigned, isoDate (todayClock dev_again)) = None \<or>
           attendanceStatus home_after_out = Some False"
    by (simp add: home_after_out_state(3))
  from handleAttendance_checks_in(4) [OF home_after_out_state(1) g home_after_out_state(2)
      d(3) isInsideOf_at_office f]
  have "getItem (storage (handleAttendance exact dev_again home_after_out))
     (''alice@onsite.com'', 20000) =
     Some (checkInData alice_assigned 20000 1728064800000 at_office)"
    by (simp add: getItem_def update_conv' e d)
  then show ?thesis
    by (simp add: home_after_out_state(4) dayState_def checkInData_def)
qed

theorem attendance_day_transitions_witness:
  "dayState (getItem (storage home0) (''alice@onsite.com'', 20000)) = NoRecord \<and>
   dayState (getItem (storage (handleAttendance exact dev_in home0))
     (''alice@onsite.com'', 20000)) = CheckedIn \<and>
   attendanceItems (storage (handleAttendance exact dev_in home_stale)) =
     attendanceItems (storage home_stale)"
proof -
  have u: "user home0 = Some alice_assigned" by (simp add: home0_def)
  have e: "user.email alice_assigned = ''alice@onsite.com''"
    by (simp add: alice_assigned_def alice_def)
  have d: "isoDate (todayClock dev_in) = 20000" "position dev_in = Some at_office"
    by (simp_all add: isoDate_def dev_in_def)
  have n: "getItem (storage home0) (''alice@onsite.com'', 20000) = None"
    by (simp add: home0_def getItem_def)
  have c: "locationStatus home0 = Inside" by (simp add: home0_def)
  have us: "user home_stale = Some alice_assigned" by (simp add: home_stale_def home0_def)
  have gs: "geofence exact (user home_stale) = Some office"
    using geofence_home0 by (simp add: home_stale_def)
  have cs: "locationStatus home_stale \<noteq> Inside" by (simp add: home_stale_def)
  from attendance_day_transitions [OF u geofence_home0, of dev_in] c d n isInsideOf_at_office
  have "dayState (getItem (storage (handleAttendance exact dev_in home0))
     (''alice@onsite.com'', 20000)) = CheckedIn"
    unfolding e d by blast
  moreover from attendance_day_transitions [OF us gs, of dev_in] cs
  have "attendanceItems (storage (handleAttendance exact dev_in home_stale)) =
     attendanceItems (storage home_stale)"
    by blast
  ultimately show ?thesis using n by (simp add: dayState_def)
qed

subsection \<open>Attendance screen\<close>

lemma fetchHistory_frame:
  "storage (fetchHistory clock s) = storage s"
  "user (fetchHistory clock s) = user s"
  "alerts (fetchHistory clock s) = alerts s"
  "selectedDept (fetchHistory clock s) = selectedDept s"
  "filter_period (fetchHistory clock s) = filter_period s"
  by (simp_all add: fetchHistory_def Let_def split: option.splits)

lemma complete_email: "attendance.email (complete es r) = attendance.email r"
  by (simp add: complete_def split: option.splits)

lemma fetchHistory_employee:
  assumes "user s = Some u" "role u \<noteq> ''admin''"
  shows "attendanceHistory (fetchHistory clock s) =
           filter (\<lambda>rec. attendance.email rec = user.email u)
             (sort_key (\<lambda>a. - sortTime a) (map snd (attendanceItems (storage s))))"
  using assms by (simp add: fetchHistory_def Let_def)

lemma fetchHistory_admin:
  assumes "user s = Some u" "role u = ''admin''"
  shows "attendanceHistory (fetchHistory clock s) =
           sort_key (\<lambda>a. - sortTime a)
             (if attendanceItems (storage s) = [] \<and> employeesOf (storage s) \<noteq> []
              then map (placeholder clock) (enumerate 0 (employeesOf (storage s)))
              else map (\<lambda>kv. complete (employeesOf (storage s)) (snd kv))
                     (attendanceItems (storage s)))"
  using assms by (simp add: fetchHistory_def Let_def comp_def)

lemma sorted_newest_first:
  "sorted_wrt (\<lambda>a b. sortTime b \<le> sortTime a) (sort_key (\<lambda>a. - sortTime a) xs)"
proof -
  have "sorted (map (\<lambda>a. - sortTime a) (sort_key (\<lambda>a. - sortTime a) xs))"
    by (rule sorted_sort_key)
  then show ?thesis by (simp add: sorted_map)
qed

lemma fetchHistory_sorted:
  "sorted_wrt (\<lambda>a b. sortTime b \<le> sortTime a) (attendanceHistory (fetchHistory clock s))
   \<or> user s = None"
  by (auto simp: fetchHistory_def Let_def sorted_newest_first sorted_wrt_filter
      split: option.splits)

lemma set_filteredHistory: "set (filteredHistory tz now s) \<subseteq> set (attendanceHistory s)"
  by (auto simp: filteredHistory_def Let_def)

lemma mset_map_sort_key: "mset (map f (sort_key k xs)) = mset (map f xs)"
  by simp

text \<open>
  C6. For a requester whose role is not \<open>admin\<close>, every record of the history that
  \<open>fetchHistory\<close> returns, and so every record that \<open>filteredHistory\<close> shows, has the
  requester's email; the history holds exactly the stored records with that email. For an admin every stored record, of whatever user, is
  in the history (with name and department completed from the employee list), and when
  the ledger is not empty the history holds exactly these records.
\<close>

theorem fetchHistory_visibility:
  assumes u: "user s = Some u"
  shows "(role u \<noteq> ''admin'' \<longrightarrow>
            (\<forall>r \<in> set (attendanceHistory (fetchHistory clock s)).
               attendance.email r = user.email u) \<and>
            (\<forall>r \<in> set (filteredHistory tz now (fetchHistory clock s)).
               attendance.email r = user.email u) \<and>
            mset (attendanceHistory (fetchHistory clock s)) =
              mset (filter (\<lambda>r. attendance.email r = user.email u)
                      (map snd (attendanceItems (storage s))))) \<and>
         (role u = ''admin'' \<longrightarrow>
            (\<forall>kv \<in> set (attendanceItems (storage s)).
               complete (employeesOf (storage s)) (snd kv)
                 \<in> set (attendanceHistory (fetchHistory clock s))) \<and>
            (attendanceItems (storage s) \<noteq> [] \<longrightarrow>
               mset (attendanceHistory (fetchHistory clock s)) =
                 mset (map (\<lambda>kv. complete (employeesOf (storage s)) (snd kv))
                         (attendanceItems (storage s))) \<and>
               mset (map attendance.email (attendanceHistory (fetchHistory clock s))) =
                 mset (map (\<lambda>kv. attendance.email (snd kv)) (attendanceItems (storage s)))))"
proof (cases "role u = ''admin''")
  case False
  have a: "\<forall>r \<in> set (attendanceHistory (fetchHistory clock s)).
      attendance.email r = user.email u"
    by (simp add: fetchHistory_employee [OF u False])
  with set_filteredHistory [of tz now "fetchHistory clock s"]
  have b: "\<forall>r \<in> set (filteredHistory tz now (fetchHistory clock s)).
      attendance.email r = user.email u"
    by blast
  have "mset (attendanceHistory (fetchHistory clock s)) =
      mset (filter (\<lambda>r. attendance.email r = user.email u)
              (map snd (attendanceItems (storage s))))"
    by (simp add: fetchHistory_employee [OF u False] filter_sort [symmetric])
  with False a b show ?thesis by blast
next
  case True
  let ?done = "map (\<lambda>kv. complete (employeesOf (storage s)) (snd kv)) (attendanceItems (storage s))"
  have m: "map attendance.email ?done =
        map (\<lambda>kv. attendance.email (snd kv)) (attendanceItems (storage s))"
    by (simp add: complete_email)
  have a: "\<forall>kv \<in> set (attendanceItems (storage s)).
      complete (employeesOf (storage s)) (snd kv) \<in> set (attendanceHistory (fetchHistory clock s))"
    by (auto simp: fetchHistory_admin [OF u True])
  have b: "mset (attendanceHistory (fetchHistory clock s)) = mset ?done \<and>
      mset (map attendance.email (attendanceHistory (fetchHistory clock s))) =
        mset (map (\<lambda>kv. attendance.email (snd kv)) (attendanceItems (storage s)))"
    if "attendanceItems (storage s) \<noteq> []"
  proof -
    have h: "attendanceHistory (fetchHistory clock s) = sort_key (\<lambda>a. - sortTime a) ?done"
      using that by (simp add: fetchHistory_admin [OF u True])
    show ?thesis
      unfolding h mset_map_sort_key m by simp
  qed
  from True a b show ?thesis by blast
qed

lemma employeesOf_att: "employeesOf (storage att_admin) = [alice_assigned, bob]"
  "employeesOf (storage att_empty) = [alice_assigned, bob]"
  "employeesOf (storage att_november) = [alice_assigned, bob]"
  by (simp_all add: employeesOf_def att_admin_def att_empty_def att_november_def admin_def
      alice_assigned_def alice_def bob_def)

theorem fetchHistory_visibility_witness:
  "user att_employee = Some alice_assigned \<and> role alice_assigned \<noteq> ''admin'' \<and>
   mset (attendanceHistory (fetchHistory clock0 att_employee)) =
     {#rec_alice_old, rec_alice_dated, rec_alice#} \<and>
   user att_admin = Some admin \<and> role admin = ''admin'' \<and>
   mset (map attendance.email (attendanceHistory (fetchHistory clock0 att_admin))) =
     {#''alice@onsite.com'', ''alice@onsite.com'', ''bob@onsite.com'', ''alice@onsite.com''#}"
proof -
  have u: "user att_employee = Some alice_assigned" by (simp add: att_employee_def)
  have r: "role alice_assigned \<noteq> ''admin''" by (simp add: alice_assigned_def alice_def)
  have e: "user.email alice_assigned = ''alice@onsite.com''"
    by (simp add: alice_assigned_def alice_def)
  have i: "attendanceItems (storage att_employee) = ledger"
    "attendanceItems (storage att_admin) = ledger"
    by (simp_all add: att_employee_def att_admin_def)
  have em: "attendance.email rec_alice = ''alice@onsite.com''"
    "attendance.email rec_bob = ''bob@onsite.com''"
    "attendance.email rec_alice_old = ''alice@onsite.com''"
    "attendance.email rec_alice_dated = ''alice@onsite.com''"
    by (simp_all add: rec_alice_def rec_bob_def rec_alice_old_def rec_alice_dated_def
        checkInData_def e bob_def)
  have ua: "user att_admin = Some admin" by (simp add: att_admin_def)
  have ra: "role admin = ''admin''" by (simp add: admin_def)
  from fetchHistory_visibility [OF u, of clock0] r
  have "mset (attendanceHistory (fetchHistory clock0 att_employee)) =
     {#rec_alice_old, rec_alice_dated, rec_alice#}"
    by (simp add: i e ledger_def em)
  moreover from fetchHistory_visibility [OF ua, of clock0] ra
  have "mset (map attendance.email (attendanceHistory (fetchHistory clock0 att_admin))) =
     {#''alice@onsite.com'', ''alice@onsite.com'', ''bob@onsite.com'', ''alice@onsite.com''#}"
    by (simp add: i ledger_def em complete_email)
  ultimately show ?thesis using u r ua ra by simp
qed

text \<open>
  The week filter. \<open>weekAgo.setDate(now.getDate() - 7)\<close> keeps the local time of day and
  goes back seven days on the local calendar: the month of a time is between 0 and 11,
  so \<open>MakeDay\<close> of the year, the month and the date less seven is the local day less seven.
\<close>

lemma MonthFromTime_range: "0 \<le> MonthFromTime t \<and> MonthFromTime t \<le> 11"
  by (simp add: MonthFromTime_def Let_def)

lemma MakeDay_back:
  "MakeDay (YearFromTime t) (MonthFromTime t) (DateFromTime t - k) = Day t - k"
proof -
  have "MonthFromTime t div 12 = 0" "MonthFromTime t mod 12 = MonthFromTime t"
    using MonthFromTime_range [of t] by simp_all
  then show ?thesis
    by (simp add: MakeDay_def DateFromTime_def DayWithinYear_def Let_def)
qed

lemma setDate_week:
  "setDate tz now (getDate tz now - 7) = UTC tz (LocalTime tz now - 7 * msPerDay)"
proof -
  have "MakeDate (Day t - 7) (TimeWithinDay t) = t - 7 * msPerDay" for t
    by (simp add: MakeDate_def Day_def TimeWithinDay_def left_diff_distrib)
  then show ?thesis
    by (simp add: setDate_def getDate_def Let_def MakeDay_back)
qed

lemma weekAgo_explicit:
  "setDate tz now (getDate tz now - 7) =
     now + tz now True - 604800000 - tz (now + tz now True - 604800000) False"
  by (simp add: setDate_week UTC_def LocalTime_def msPerDay_def)

lemma filteredHistory_week:
  assumes u: "user s = Some u" and adm: "role u = ''admin''"
    and dept: "selectedDept s \<noteq> ''All''" and week: "filter_period s = Week"
  shows "filteredHistory tz now (fetchHistory clock s) =
      filter (\<lambda>item. setDate tz now (getDate tz now - 7) \<le> sortTime item \<and> sortTime item \<le> now)
        (filter (\<lambda>rec. attendance.department rec = Some (selectedDept s))
           (attendanceHistory (fetchHistory clock s)))"
  using u adm dept week by (simp add: filteredHistory_def Let_def fetchHistory_frame)

text \<open>
  C7, as amended. For an admin with a department selected and the week filter, every
  record that \<open>filteredHistory\<close> returns from the fetched history has that department and
  has its check-in time, or midnight UTC of its date when the check-in time is absent (or
  the epoch when both are), between \<open>weekAgo\<close> and \<open>now\<close>. \<open>weekAgo\<close> is the time with the
  local time of day of \<open>now\<close> seven days earlier on the calendar of the device: the local
  time of \<open>now\<close>, less 604800000 ms, read as a local time. It is \<open>now - 604800000\<close> when the
  offset of local time then is the offset at \<open>now\<close>. The records are in the order of
  decreasing time, with the same fallback.
\<close>

theorem filteredHistory_department_week:
  assumes u: "user s = Some u" and adm: "role u = ''admin''"
    and dept: "selectedDept s \<noteq> ''All''" and week: "filter_period s = Week"
  shows "(\<forall>r \<in> set (filteredHistory tz now (fetchHistory clock s)).
            attendance.department r = Some (selectedDept s) \<and>
            now + tz now True - 604800000 - tz (now + tz now True - 604800000) False
              \<le> (case checkInTime r of
                    Some t \<Rightarrow> t
                  | None \<Rightarrow> (case date r of Some d \<Rightarrow> d * 86400000 | None \<Rightarrow> 0)) \<and>
            (case checkInTime r of
               Some t \<Rightarrow> t
             | None \<Rightarrow> (case date r of Some d \<Rightarrow> d * 86400000 | None \<Rightarrow> 0)) \<le> now \<and>
            (tz (now + tz now True - 604800000) False = tz now True \<longrightarrow>
               now - 604800000
                 \<le> (case checkInTime r of
                       Some t \<Rightarrow> t
                     | None \<Rightarrow> (case date r of Some d \<Rightarrow> d * 86400000 | None \<Rightarrow> 0)))) \<and>
         sorted_wrt
           (\<lambda>a b. (case checkInTime b of
                      Some t \<Rightarrow> t
                    | None \<Rightarrow> (case date b of Some d \<Rightarrow> d * 86400000 | None \<Rightarrow> 0))
                   \<le> (case checkInTime a of
                         Some t \<Rightarrow> t
                       | None \<Rightarrow> (case date a of Some d \<Rightarrow> d * 86400000 | None \<Rightarrow> 0)))
           (filteredHistory tz now (fetchHistory clock s))"
proof -
  note eq = filteredHistory_week [OF u adm dept week, of tz now clock]
  have "sorted_wrt (\<lambda>a b. sortTime b \<le> sortTime a) (attendanceHistory (fetchHistory clock s))"
    using fetchHistory_sorted [of clock s] u by simp
  then have srt: "sorted_wrt (\<lambda>a b. sortTime b \<le> sortTime a)
      (filteredHistory tz now (fetchHistory clock s))"
    unfolding eq by (auto intro: sorted_wrt_filter)
  have mem: "attendance.department r = Some (selectedDept s) \<and>
      now + tz now True - 604800000 - tz (now + tz now True - 604800000) False \<le> sortTime r \<and>
      sortTime r \<le> now"
    if "r \<in> set (filteredHistory tz now (fetchHistory clock s))" for r
    using that unfolding eq weekAgo_explicit by simp
  have wk: "now - 604800000 \<le> sortTime r"
    if "r \<in> set (filteredHistory tz now (fetchHistory clock s))"
      "tz (now + tz now True - 604800000) False = tz now True" for r
    using mem [OF that(1)] that(2) by simp
  from srt mem wk show ?thesis
    unfolding sortTime_def by blast
qed

lemma ledger_facts:
  "sortTime rec_alice = 1728032400000" "sortTime rec_bob = 1727946000000"
  "sortTime rec_alice_dated = 1727827200000" "sortTime rec_alice_old = 1727136000000"
  "complete [alice_assigned, bob] rec_alice = rec_alice"
  "complete [alice_assigned, bob] rec_bob = rec_bob"
  "complete [alice_assigned, bob] rec_alice_dated = rec_alice_dated"
  "complete [alice_assigned, bob] rec_alice_old = rec_alice_old"
  "attendance.department rec_alice = Some ''Engineering''"
  "attendance.department rec_bob = Some ''Sales''"
  "attendance.department rec_alice_dated = Some ''Engineering''"
  "attendance.department rec_alice_old = Some ''Engineering''"
  by (simp_all add: sortTime_def complete_def truthy_def rec_alice_def rec_bob_def
      rec_alice_dated_def rec_alice_old_def checkInData_def alice_assigned_def alice_def bob_def)

lemma weekAgo_example: "setDate pacific now0 (getDate pacific now0 - 7) = 1727460000000"
  by (simp add: weekAgo_explicit now0_def pacific_def)

lemma filteredHistory_example:
  "filteredHistory pacific now0 (fetchHistory clock0 att_admin) = [rec_alice, rec_alice_dated]"
proof -
  have ua: "user att_admin = Some admin" by (simp add: att_admin_def)
  have ra: "role admin = ''admin''" by (simp add: admin_def)
  have h: "attendanceHistory (fetchHistory clock0 att_admin) =
      [rec_alice, rec_bob, rec_alice_dated, rec_alice_old]"
    by (simp add: fetchHistory_admin [OF ua ra] employeesOf_att)
       (simp add: att_admin_def ledger_def ledger_facts)
  have sd: "selectedDept att_admin \<noteq> ''All''" "selectedDept att_admin = ''Engineering''"
    by (simp_all add: att_admin_def)
  have fp: "filter_period att_admin = Week" by (simp add: att_admin_def)
  show ?thesis
    unfolding filteredHistory_week [OF ua ra sd(1) fp] weekAgo_example h sd(2)
    by (simp add: ledger_facts now0_def)
qed

theorem filteredHistory_department_week_witness:
  "user att_admin = Some admin \<and> role admin = ''admin'' \<and> selectedDept att_admin \<noteq> ''All'' \<and>
   filter_period att_admin = Week \<and>
   pacific (now0 + pacific now0 True - 604800000) False = pacific now0 True \<and>
   filteredHistory pacific now0 (fetchHistory clock0 att_admin) = [rec_alice, rec_alice_dated] \<and>
   attendance.department rec_alice = Some ''Engineering'' \<and>
   checkInTime rec_alice = Some 1728032400000 \<and>
   now0 - 604800000 \<le> 1728032400000 \<and> 1728032400000 \<le> now0 \<and>
   attendance.department rec_alice_dated = Some ''Engineering'' \<and>
   checkInTime rec_alice_dated = None \<and> date rec_alice_dated = Some 19998 \<and>
   now0 - 604800000 \<le> 19998 * 86400000 \<and> 19998 * 86400000 \<le> now0 \<and>
   19998 * 86400000 \<le> (1728032400000::int)"
proof -
  have ua: "user att_admin = Some admin" by (simp add: att_admin_def)
  have ra: "role admin = ''admin''" by (simp add: admin_def)
  have sd: "selectedDept att_admin \<noteq> ''All''" "selectedDept att_admin = ''Engineering''"
    by (simp_all add: att_admin_def)
  have fp: "filter_period att_admin = Week" by (simp add: att_admin_def)
  have z: "pacific (now0 + pacific now0 True - 604800000) False = pacific now0 True"
    by (simp add: pacific_def now0_def)
  have c: "checkInTime rec_alice = Some 1728032400000" "checkInTime rec_alice_dated = None"
    "date rec_alice_dated = Some 19998"
    by (simp_all add: rec_alice_def rec_alice_dated_def checkInData_def)
  from filteredHistory_department_week [OF ua ra sd(1) fp, of pacific now0 clock0] z
  have "attendance.department rec_alice = Some ''Engineering'' \<and>
   now0 - 604800000 \<le> 1728032400000 \<and> 1728032400000 \<le> now0 \<and>
   attendance.department rec_alice_dated = Some ''Engineering'' \<and>
   now0 - 604800000 \<le> 19998 * 86400000 \<and> 19998 * 86400000 \<le> now0 \<and>
   19998 * 86400000 \<le> (1728032400000::int)"
    unfolding filteredHistory_example sd(2) by (simp add: c)
  then show ?thesis using ua ra sd(1) fp z c filteredHistory_example by simp
qed

text \<open>
  C7 as stated, with the bound \<open>now - 7 days\<close>, fails in a week in which the clocks are set
  back. In San Francisco on the 5th of November 2024 at 10:00 local time the admin's query
  for Engineering and the week returns Alice's record of the 29th of October, 10:30 local
  time: \<open>weekAgo\<close> is the 29th of October at 10:00 local time, which is seven days and one
  hour before \<open>now\<close>, and the record is seven days and half an hour old.
\<close>

theorem filteredHistory_week_clock_change_counterexample:
  "user att_november = Some admin \<and> role admin = ''admin'' \<and>
   selectedDept att_november = ''Engineering'' \<and> filter_period att_november = Week \<and>
   filteredHistory pacific now_november (fetchHistory clock0 att_november) =
     [rec_alice_october] \<and>
   attendance.department rec_alice_october = Some ''Engineering'' \<and>
   checkInTime rec_alice_october = Some 1730223000000 \<and>
   now_november - 7 * 86400000 = 1730224800000 \<and>
   1730223000000 < now_november - 7 * 86400000 \<and>
   setDate pacific now_november (getDate pacific now_november - 7) = 1730221200000"
proof -
  have ua: "user att_november = Some admin" by (simp add: att_november_def att_admin_def)
  have ra: "role admin = ''admin''" by (simp add: admin_def)
  have sd: "selectedDept att_november \<noteq> ''All''" "selectedDept att_november = ''Engineering''"
    by (simp_all add: att_november_def att_admin_def)
  have fp: "filter_period att_november = Week" by (simp add: att_november_def att_admin_def)
  have r: "sortTime rec_alice_october = 1730223000000"
    "checkInTime rec_alice_october = Some 1730223000000"
    "attendance.department rec_alice_october = Some ''Engineering''"
    "complete [alice_assigned, bob] rec_alice_october = rec_alice_october"
    by (simp_all add: sortTime_def complete_def truthy_def rec_alice_october_def checkInData_def
        alice_assigned_def alice_def)
  have w: "setDate pacific now_november (getDate pacific now_november - 7) = 1730221200000"
    by (simp add: weekAgo_explicit now_november_def pacific_def)
  have h: "attendanceHistory (fetchHistory clock0 att_november) = [rec_alice_october]"
    by (simp add: fetchHistory_admin [OF ua ra] employeesOf_att)
       (simp add: att_november_def r)
  have f: "filteredHistory pacific now_november (fetchHistory clock0 att_november) =
     [rec_alice_october]"
    unfolding filteredHistory_week [OF ua ra sd(1) fp] w h sd(2)
    by (simp add: r now_november_def)
  have n: "now_november - 7 * 86400000 = 1730224800000" by (simp add: now_november_def)
  show ?thesis
    using ua ra sd(2) fp f r(2,3) w unfolding n by simp
qed

lemma map_email_placeholder:
  "map attendance.email (map (placeholder clock) (enumerate n es)) = map user.email es"
  by (induction es arbitrary: n) (simp_all add: placeholder_def)

text \<open>
  C8. For an admin, when the store holds no attendance record and at least one employee,
  the history is a rearrangement of one placeholder per employee, each marked
  \<open>No attendance recorded\<close>, and \<open>fetchHistory\<close> leaves the storage as it was.
\<close>

theorem fetchHistory_placeholders:
  assumes u: "user s = Some u" and adm: "role u = ''admin''"
    and none: "attendanceItems (storage s) = []"
    and emp: "employeesOf (storage s) \<noteq> []"
  shows "mset (attendanceHistory (fetchHistory clock s)) =
           mset (map (placeholder clock) (enumerate 0 (employeesOf (storage s)))) \<and>
         length (attendanceHistory (fetchHistory clock s)) = length (employeesOf (storage s)) \<and>
         mset (map attendance.email (attendanceHistory (fetchHistory clock s))) =
           mset (map user.email (employeesOf (storage s))) \<and>
         (\<forall>r \<in> set (attendanceHistory (fetchHistory clock s)).
            status r = Some ''No attendance recorded'' \<and> checkOutTime r = None) \<and>
         storage (fetchHistory clock s) = storage s"
proof -
  let ?ps = "map (placeholder clock) (enumerate 0 (employeesOf (storage s)))"
  have h: "attendanceHistory (fetchHistory clock s) = sort_key (\<lambda>a. - sortTime a) ?ps"
    using none emp by (simp add: fetchHistory_admin [OF u adm])
  have "mset (map attendance.email (sort_key (\<lambda>a. - sortTime a) ?ps)) =
        mset (map attendance.email ?ps)"
    by (rule mset_map_sort_key)
  also have "\<dots> = mset (map user.email (employeesOf (storage s)))"
    by (simp only: map_email_placeholder)
  finally have m: "mset (map attendance.email (attendanceHistory (fetchHistory clock s))) =
           mset (map user.email (employeesOf (storage s)))"
    by (simp only: h)
  have st: "\<forall>r \<in> set ?ps. status r = Some ''No attendance recorded'' \<and> checkOutTime r = None"
    by (auto simp: placeholder_def)
  show ?thesis
    using m st by (simp add: h fetchHistory_frame)
qed

theorem fetchHistory_placeholders_witness:
  "user att_empty = Some admin \<and> role admin = ''admin'' \<and>
   attendanceItems (storage att_empty) = [] \<and>
   employeesOf (storage att_empty) = [alice_assigned, bob] \<and>
   length (attendanceHistory (fetchHistory clock0 att_empty)) = 2 \<and>
   mset (map attendance.email (attendanceHistory (fetchHistory clock0 att_empty))) =
     {#''alice@onsite.com'', ''bob@onsite.com''#} \<and>
   storage (fetchHistory clock0 att_empty) = storage att_empty"
proof -
  have ua: "user att_empty = Some admin" by (simp add: att_empty_def att_admin_def)
  have ra: "role admin = ''admin''" by (simp add: admin_def)
  have n: "attendanceItems (storage att_empty) = []" by (simp add: att_empty_def)
  have e: "employeesOf (storage att_empty) \<noteq> []" by (simp add: employeesOf_att)
  have m: "user.email alice_assigned = ''alice@onsite.com''" "user.email bob = ''bob@onsite.com''"
    by (simp_all add: alice_assigned_def alice_def bob_def)
  from fetchHistory_placeholders [OF ua ra n e, of clock0]
  show ?thesis using ua ra n by (simp add: employeesOf_att m placeholder_def)
qed

end
